(* ===== verification/Prelude.thy ===== *)
theory Prelude
  imports Main "HOL-Library.Sublist"
begin

text \<open>
  Shared vocabulary of the development: the Python built-ins that
  \<^verbatim>\<open>src/kanban/create_issues.py\<close> calls on strings and lists
  (\<^verbatim>\<open>str.strip\<close>, \<^verbatim>\<open>str.lower\<close>, \<^verbatim>\<open>str.split\<close>,
  \<^verbatim>\<open>str.join\<close>, the substring test \<^verbatim>\<open>a in b\<close>, \<^verbatim>\<open>s or ""\<close>,
  \<^verbatim>\<open>str(n)\<close>), with the lemmas on them that the component theories share.

  A Python \<^verbatim>\<open>str\<close> is a sequence of Unicode code points. It is modelled as a
  HOL \<open>string\<close> whose \<open>char\<close>s are read as the code points U+0000 to U+00FF
  (Latin-1), which covers every literal of the program (the accented letters of the
  Spanish templates are U+00E9, U+00ED, U+00F3 and U+00FA). On this range
  \<open>py_isspace\<close> and \<open>py_lower\<close> are exactly CPython's \<^verbatim>\<open>str.isspace\<close>
  and \<^verbatim>\<open>str.lower\<close>; code points beyond U+00FF are not modelled.
\<close>

named_theorems pystr_simps \<open>rewrite rules for the Python string built-ins\<close>

type_synonym pystr = string

abbreviation e_acute :: char where "e_acute \<equiv> CHR 0xE9"
abbreviation i_acute :: char where "i_acute \<equiv> CHR 0xED"
abbreviation o_acute :: char where "o_acute \<equiv> CHR 0xF3"
abbreviation u_acute :: char where "u_acute \<equiv> CHR 0xFA"

section \<open>Whitespace and \<^verbatim>\<open>str.strip\<close>\<close>

text \<open>CPython's \<^verbatim>\<open>Py_UNICODE_ISSPACE\<close> on U+0000..U+00FF: the controls
  TAB..CR, the separators U+001C..U+001F, SPACE, NEL (U+0085) and NBSP (U+00A0).\<close>

definition py_isspace :: "char \<Rightarrow> bool" where
  "py_isspace c \<longleftrightarrow>
     (let n = of_char c :: nat in
        (9 \<le> n \<and> n \<le> 13) \<or> (28 \<le> n \<and> n \<le> 32) \<or> n = 133 \<or> n = 160)"

text \<open>\<^verbatim>\<open>s.strip()\<close> drops the leading and the trailing run of whitespace.\<close>

definition py_strip :: "pystr \<Rightarrow> pystr" where
  "py_strip s = rev (dropWhile py_isspace (rev (dropWhile py_isspace s)))"

section \<open>\<^verbatim>\<open>str.lower\<close>\<close>

text \<open>Upper-case letters of Latin-1 are A..Z and U+00C0..U+00DE without the
  multiplication sign U+00D7; each lowers to the code point 32 above it.\<close>

definition py_lower_char :: "char \<Rightarrow> char" where
  "py_lower_char c =
     (let n = of_char c :: nat in
        if (65 \<le> n \<and> n \<le> 90) \<or> (192 \<le> n \<and> n \<le> 222 \<and> n \<noteq> 215)
        then char_of (n + 32) else c)"

definition py_lower :: "pystr \<Rightarrow> pystr" where
  "py_lower s = map py_lower_char s"

section \<open>\<^verbatim>\<open>str.split(sep)\<close> and \<^verbatim>\<open>sep.join\<close>\<close>

text \<open>\<^verbatim>\<open>s.split(",")\<close> scans \<open>s\<close>, closing the current piece at each
  separator; the empty string gives one empty piece. The current piece is kept
  reversed, as an accumulator.\<close>

fun split_acc :: "char \<Rightarrow> pystr \<Rightarrow> pystr \<Rightarrow> pystr list" where
  "split_acc c cur [] = [rev cur]"
| "split_acc c cur (x # xs) =
     (if x = c then rev cur # split_acc c [] xs else split_acc c (x # cur) xs)"

definition py_split :: "char \<Rightarrow> pystr \<Rightarrow> pystr list" where
  "py_split c s = split_acc c [] s"

fun py_join :: "pystr \<Rightarrow> pystr list \<Rightarrow> pystr" where
  "py_join sep [] = []"
| "py_join sep [x] = x"
| "py_join sep (x # y # zs) = x @ sep @ py_join sep (y # zs)"

section \<open>The substring test \<^verbatim>\<open>needle in hay\<close>\<close>

fun starts_with :: "pystr \<Rightarrow> pystr \<Rightarrow> bool" where
  "starts_with [] hs = True"
| "starts_with (n # ns) [] = False"
| "starts_with (n # ns) (h # hs) = (n = h \<and> starts_with ns hs)"

fun py_contains :: "pystr \<Rightarrow> pystr \<Rightarrow> bool" where
  "py_contains n [] = (n = [])"
| "py_contains n (h # hs) = (starts_with n (h # hs) \<or> py_contains n hs)"

section \<open>Reading back the value interpolated into a template\<close>

text \<open>\<open>unfill pre post b\<close> is the \<open>d\<close> with \<open>b = pre @ d @ post\<close>, if
  there is one.\<close>

definition unfill :: "pystr \<Rightarrow> pystr \<Rightarrow> pystr \<Rightarrow> pystr option" where
  "unfill pre post b =
     (if starts_with pre b \<and> length pre + length post \<le> length b
         \<and> drop (length b - length post) b = post
      then Some (take (length b - length post - length pre) (drop (length pre) b))
      else None)"

section \<open>\<^verbatim>\<open>x or ""\<close> on an optional field, and \<^verbatim>\<open>str(n)\<close>\<close>

text \<open>\<^verbatim>\<open>r.get(k) or ""\<close>: a missing field (\<open>None\<close>) reads as the empty
  string; a present string is kept (the empty string is falsy but is \<open>""\<close> anyway).\<close>

definition py_or_empty :: "pystr option \<Rightarrow> pystr" where
  "py_or_empty v = (case v of None \<Rightarrow> [] | Some s \<Rightarrow> s)"

fun py_str_nat :: "nat \<Rightarrow> pystr" where
  "py_str_nat n =
     (if n < 10 then [char_of (48 + n)]
      else py_str_nat (n div 10) @ [char_of (48 + n mod 10)])"

declare py_str_nat.simps [simp del]

text \<open>Reading a decimal numeral back, the inverse of \<open>py_str_nat\<close> on its image
  (used to read the script's summary line).\<close>

definition is_digit :: "char \<Rightarrow> bool" where
  "is_digit c = (48 \<le> (of_char c :: nat) \<and> (of_char c :: nat) \<le> 57)"

fun digits_val :: "nat \<Rightarrow> pystr \<Rightarrow> nat" where
  "digits_val acc [] = acc"
| "digits_val acc (c # cs) = digits_val (10 * acc + (of_char c - 48)) cs"

section \<open>Lemmas on the string built-ins\<close>

lemma starts_with_prefix [pystr_simps]: "starts_with n h \<longleftrightarrow> prefix n h"
  by (induction n h rule: starts_with.induct) auto

lemma py_contains_sublist [pystr_simps]: "py_contains n h \<longleftrightarrow> sublist n h"
  by (induction n h rule: py_contains.induct)
     (auto simp: starts_with_prefix sublist_Cons_right)

lemma py_contains_trans:
  "py_contains a b \<Longrightarrow> py_contains b c \<Longrightarrow> py_contains a c"
  by (auto simp: py_contains_sublist intro: sublist_order.order.trans)

lemma py_contains_appendI [intro]:
  "py_contains n (xs @ n @ ys)"
  by (simp add: py_contains_sublist)

lemma set_py_strip [pystr_simps]: "set (py_strip s) \<subseteq> set s"
  unfolding py_strip_def
  by (metis set_dropWhileD set_rev subsetI)

lemma all_dropWhile_iff:
  "(\<forall>x \<in> set (dropWhile P xs). P x) \<longleftrightarrow> (\<forall>x \<in> set xs. P x)"
  by (induction xs) auto

lemma py_strip_Nil_iff [pystr_simps]:
  "py_strip s = [] \<longleftrightarrow> (\<forall>c \<in> set s. py_isspace c)"
  by (simp add: py_strip_def dropWhile_eq_Nil_conv all_dropWhile_iff)

lemma hd_rev_dropWhile_rev:
  assumes "xs \<noteq> []" "\<not> P (hd xs)"
  shows "rev (dropWhile P (rev xs)) \<noteq> [] \<and> hd (rev (dropWhile P (rev xs))) = hd xs"
proof -
  from assms have in_rev: "hd xs \<in> set (rev xs)" by simp
  with assms have ne: "dropWhile P (rev xs) \<noteq> []"
    by (auto simp: dropWhile_eq_Nil_conv)
  from in_rev assms(2) have "last (dropWhile P (rev xs)) = last (rev xs)"
    by (rule dropWhile_last)
  with ne assms show ?thesis by (simp add: hd_rev last_rev)
qed

lemma dropWhile_keeps_rev_dropWhile:
  assumes "xs = [] \<or> \<not> P (hd xs)"
  shows "dropWhile P (rev (dropWhile P (rev xs))) = rev (dropWhile P (rev xs))"
proof (cases "rev (dropWhile P (rev xs)) = []")
  case True then show ?thesis by (metis dropWhile.simps(1))
next
  case False
  then have "xs \<noteq> []" by auto
  with assms have "rev (dropWhile P (rev xs)) \<noteq> [] \<and> hd (rev (dropWhile P (rev xs))) = hd xs"
    using hd_rev_dropWhile_rev [of xs P] by blast
  with assms \<open>xs \<noteq> []\<close> show ?thesis
    by (simp add: dropWhile_eq_self_iff)
qed

lemma py_strip_idem [pystr_simps]: "py_strip (py_strip s) = py_strip s"
proof -
  let ?a = "dropWhile py_isspace s"
  have a: "?a = [] \<or> \<not> py_isspace (hd ?a)"
    by (cases "?a = []") (simp_all add: hd_dropWhile)
  have "dropWhile py_isspace (py_strip s) = py_strip s"
    unfolding py_strip_def using a by (rule dropWhile_keeps_rev_dropWhile)
  then show ?thesis
    by (simp add: py_strip_def)
qed

lemma py_strip_ends:
  assumes ne: "py_strip s \<noteq> []"
  shows "\<not> py_isspace (hd (py_strip s)) \<and> \<not> py_isspace (last (py_strip s))"
proof
  let ?a = "dropWhile py_isspace s"
  have st: "py_strip s = rev (dropWhile py_isspace (rev ?a))"
    by (simp add: py_strip_def)
  have a: "?a \<noteq> []"
  proof
    assume "?a = []"
    with ne st show False by simp
  qed
  then have "\<not> py_isspace (hd ?a)" by (rule hd_dropWhile)
  with a have "hd (py_strip s) = hd ?a"
    unfolding st by (simp add: hd_rev_dropWhile_rev)
  with \<open>\<not> py_isspace (hd ?a)\<close> show "\<not> py_isspace (hd (py_strip s))" by simp
  from ne have "dropWhile py_isspace (rev ?a) \<noteq> []" unfolding st by simp
  then have "\<not> py_isspace (hd (dropWhile py_isspace (rev ?a)))" by (rule hd_dropWhile)
  then show "\<not> py_isspace (last (py_strip s))"
    unfolding st by (simp add: last_rev)
qed

lemma split_acc_append:
  "c \<notin> set x \<Longrightarrow> split_acc c cur (x @ rest) = split_acc c (rev x @ cur) rest"
  by (induction x arbitrary: cur) auto

lemma split_acc_no_sep: "c \<notin> set x \<Longrightarrow> split_acc c cur x = [rev cur @ x]"
  using split_acc_append [of c x cur "[]"] by simp

lemma py_split_py_join [pystr_simps]:
  "xs \<noteq> [] \<Longrightarrow> \<forall>x \<in> set xs. c \<notin> set x \<Longrightarrow> py_split c (py_join [c] xs) = xs"
proof (induction "[c]" xs rule: py_join.induct)
  case (2 x)
  then show ?case by (simp add: py_split_def split_acc_no_sep)
next
  case (3 x y zs)
  then show ?case by (simp add: py_split_def split_acc_append)
qed simp

lemma split_acc_pieces:
  "c \<notin> set cur \<Longrightarrow> p \<in> set (split_acc c cur s) \<Longrightarrow> c \<notin> set p"
  by (induction c cur s rule: split_acc.induct) (auto split: if_splits)

lemma py_split_pieces [pystr_simps]: "p \<in> set (py_split c s) \<Longrightarrow> c \<notin> set p"
  unfolding py_split_def by (rule split_acc_pieces) simp_all

lemma split_acc_ne: "split_acc c cur s \<noteq> []"
  by (induction c cur s rule: split_acc.induct) auto

lemma py_join_split_acc:
  "py_join [c] (split_acc c cur s) = rev cur @ s"
proof (induction c cur s rule: split_acc.induct)
  case (2 c cur x xs)
  then show ?case
    by (cases "split_acc c [] xs") (auto simp: split_acc_ne)
qed simp

lemma py_join_py_split [pystr_simps]: "py_join [c] (py_split c s) = s"
  by (simp add: py_split_def py_join_split_acc)

lemma py_lower_char_idem: "py_lower_char (py_lower_char c) = py_lower_char c"
  by (simp add: py_lower_char_def Let_def)

lemma py_lower_idem [pystr_simps]: "py_lower (py_lower s) = py_lower s"
  by (simp add: py_lower_def py_lower_char_idem)
section \<open>Decimal numerals\<close>

lemma digits_val_append: "digits_val acc (xs @ ys) = digits_val (digits_val acc xs) ys"
  by (induction xs arbitrary: acc) simp_all

lemma of_char_digit: "n < 10 \<Longrightarrow> of_char (char_of (48 + n) :: char) = (48 + n :: nat)"
  by (simp add: of_char_of)

lemma py_str_nat_digits: "c \<in> set (py_str_nat n) \<Longrightarrow> is_digit c"
proof (induction n rule: py_str_nat.induct)
  case (1 n)
  show ?case
  proof (cases "n < 10")
    case True
    with "1.prems" show ?thesis by (simp add: py_str_nat.simps is_digit_def of_char_digit)
  next
    case False
    with "1.prems" "1.IH" show ?thesis by (auto simp: py_str_nat.simps [of n] is_digit_def of_char_digit)
  qed
qed

lemma py_str_nat_ne: "py_str_nat n \<noteq> []"
  by (simp add: py_str_nat.simps [of n])

lemma digits_val_py_str_nat: "digits_val 0 (py_str_nat n) = n"
proof (induction n rule: py_str_nat.induct)
  case (1 n)
  show ?case
  proof (cases "n < 10")
    case True then show ?thesis by (simp add: py_str_nat.simps of_char_digit)
  next
    case False
    with "1.IH" show ?thesis by (simp add: py_str_nat.simps [of n] digits_val_append of_char_digit)
  qed
qed

section \<open>Stripping around split pieces\<close>

lemma split_acc_hd_tl:
  "split_acc c cur m = (rev cur @ hd (split_acc c [] m)) # tl (split_acc c [] m)"
proof (induction m arbitrary: cur)
  case Nil then show ?case by simp
next
  case (Cons x xs)
  then show ?case by (metis append.assoc append.simps rev.simps split_acc.simps(2) list.sel(1,3) rev_append)
qed

lemma split_acc_snoc_ws:
  "c \<notin> set ws \<Longrightarrow>
   split_acc c cur (m @ ws) = butlast (split_acc c cur m) @ [last (split_acc c cur m) @ ws]"
proof (induction m arbitrary: cur)
  case Nil then show ?case by (simp add: split_acc_no_sep)
next
  case (Cons x xs)
  then show ?case by (simp add: split_acc_ne)
qed

lemma py_strip_ws_append:
  "\<forall>c \<in> set ws. py_isspace c \<Longrightarrow> py_strip (ws @ x) = py_strip x"
  by (simp add: py_strip_def dropWhile_append2)

lemma py_strip_append_ws:
  "\<forall>c \<in> set ws. py_isspace c \<Longrightarrow> py_strip (x @ ws) = py_strip x"
proof (cases "\<forall>c \<in> set x. py_isspace c")
  case True
  moreover assume "\<forall>c \<in> set ws. py_isspace c"
  ultimately have "py_strip (x @ ws) = []" and "py_strip x = []"
    by (auto simp: py_strip_Nil_iff)
  then show ?thesis by simp
next
  case False
  assume ws: "\<forall>c \<in> set ws. py_isspace c"
  from False have "dropWhile py_isspace (x @ ws) = dropWhile py_isspace x @ ws"
    by (auto intro: dropWhile_append1)
  moreover have "dropWhile py_isspace (rev ws @ r) = dropWhile py_isspace r" for r
    using ws by (intro dropWhile_append2) auto
  ultimately show ?thesis by (simp add: py_strip_def)
qed

lemma py_strip_decomp:
  obtains lead trail where "s = lead @ py_strip s @ trail"
    "\<forall>c \<in> set lead. py_isspace c" "\<forall>c \<in> set trail. py_isspace c"
proof -
  let ?P = py_isspace
  let ?d = "dropWhile ?P s"
  have 1: "s = takeWhile ?P s @ ?d" by simp
  have "rev ?d = takeWhile ?P (rev ?d) @ dropWhile ?P (rev ?d)" by simp
  then have 2: "?d = py_strip s @ rev (takeWhile ?P (rev ?d))"
    by (metis py_strip_def rev_append rev_rev_ident)
  from 1 2 have "s = takeWhile ?P s @ py_strip s @ rev (takeWhile ?P (rev ?d))" by simp
  then show ?thesis using that
    by (metis set_rev set_takeWhileD)
qed

lemma space_not_comma: "\<forall>c \<in> set ws. py_isspace c \<Longrightarrow> CHR '','' \<notin> set ws"
  by (auto simp: py_isspace_def)

lemma remdups_append_mem: "y \<in> set ys \<Longrightarrow> remdups (xs @ y # ys) = remdups (xs @ ys)"
  by (induction xs) auto

section \<open>Templates\<close>

lemma unfill_fill [pystr_simps]: "unfill pre post (pre @ d @ post) = Some d"
  by (simp add: unfill_def starts_with_prefix)

lemma append_ne_if_not_prefix:
  "\<not> prefix a b \<Longrightarrow> \<not> prefix b a \<Longrightarrow> a @ x \<noteq> b @ y"
  by (metis append_eq_append_conv2 prefix_def)

end
