(* ===== verification/Labels.thy ===== *)
theory Labels
  imports Prelude
begin

text \<open>
  Labels of an issue: \<^verbatim>\<open>normalize_labels\<close> (lines 14--23 of
  \<^verbatim>\<open>src/kanban/create_issues.py\<close>), \<^verbatim>\<open>kind_from_labels\<close> (54--62) and
  \<^verbatim>\<open>ensure_primary_label\<close> (64--68). The loop of \<^verbatim>\<open>normalize_labels\<close> is
  \<open>norm_loop\<close>, with the list \<^verbatim>\<open>out\<close> as its accumulator. The abstract
  specification \<open>normalize_spec\<close> says what the loop computes: the stripped,
  non-empty comma-separated pieces, each kept at its first occurrence. The kind is a
  string in the source; \<open>issue_kind\<close> is the closed enumeration the spec
  describes, and \<open>classify\<close> its abstract classifier.
\<close>

section \<open>\<^verbatim>\<open>normalize_labels\<close>\<close>

text \<open>\<^verbatim>\<open>for x in s.split(","): x = x.strip(); if x and x not in out: out.append(x)\<close>\<close>

fun norm_loop :: "pystr list \<Rightarrow> pystr list \<Rightarrow> pystr list" where
  "norm_loop out [] = out"
| "norm_loop out (x # xs) =
     (let x' = py_strip x in
      if x' \<noteq> [] \<and> x' \<notin> set out then norm_loop (out @ [x']) xs else norm_loop out xs)"

definition normalize_labels :: "pystr option \<Rightarrow> pystr list" where
  "normalize_labels s0 =
     (let s = py_strip (py_or_empty s0) in
      if s = [] then [] else norm_loop [] (py_split CHR '','' s))"

text \<open>First occurrences: \<open>remdups\<close> keeps the last occurrence of each element, so it
  is applied to the reversed list.\<close>

definition dedup_first :: "'a list \<Rightarrow> 'a list" where
  "dedup_first xs = rev (remdups (rev xs))"

definition label_pieces :: "pystr \<Rightarrow> pystr list" where
  "label_pieces s = filter (\<lambda>x. x \<noteq> []) (map py_strip (py_split CHR '','' s))"

definition normalize_spec :: "pystr option \<Rightarrow> pystr list" where
  "normalize_spec s0 = dedup_first (label_pieces (py_or_empty s0))"

section \<open>The kind of an issue\<close>

text \<open>\<^verbatim>\<open>kind_from_labels\<close>: the first of \<^verbatim>\<open>bug\<close>, \<^verbatim>\<open>db\<close>,
  \<^verbatim>\<open>docs\<close> among the labels, else \<^verbatim>\<open>feature\<close>.\<close>

definition kind_from_labels :: "pystr list \<Rightarrow> pystr" where
  "kind_from_labels labels =
     (let labs = set labels in
      if ''bug'' \<in> labs then ''bug''
      else if ''db'' \<in> labs then ''db''
      else if ''docs'' \<in> labs then ''docs''
      else ''feature'')"

definition ensure_primary_label :: "pystr list \<Rightarrow> pystr \<Rightarrow> pystr list" where
  "ensure_primary_label labels kind =
     (let labs = labels in if kind \<notin> set labs then kind # labs else labs)"

datatype issue_kind = Bug | Db | Docs | Feature

primrec kind_name :: "issue_kind \<Rightarrow> pystr" where
  "kind_name Bug = ''bug''"
| "kind_name Db = ''db''"
| "kind_name Docs = ''docs''"
| "kind_name Feature = ''feature''"

text \<open>The abstract classifier: the first kind, in order of precedence, whose name is
  among the labels; \<open>Feature\<close> when none is.\<close>

definition kind_precedence :: "issue_kind list" where
  "kind_precedence = [Bug, Db, Docs]"

definition classify :: "pystr set \<Rightarrow> issue_kind" where
  "classify L = hd (filter (\<lambda>k. kind_name k \<in> L) kind_precedence @ [Feature])"

text \<open>The precedence as a rank: a smaller rank wins.\<close>

primrec kind_rank :: "issue_kind \<Rightarrow> nat" where
  "kind_rank Bug = 0" | "kind_rank Db = 1" | "kind_rank Docs = 2" | "kind_rank Feature = 3"

section \<open>Well-formed label lists\<close>

text \<open>A label as \<^verbatim>\<open>normalize_labels\<close> leaves it: non-empty, stripped,
  without a comma; a label list is well formed when its labels are and none repeats.\<close>

definition label_wf :: "pystr \<Rightarrow> bool" where
  "label_wf x \<longleftrightarrow> x \<noteq> [] \<and> py_strip x = x \<and> CHR '','' \<notin> set x"

definition labels_wf :: "pystr list \<Rightarrow> bool" where
  "labels_wf ls \<longleftrightarrow> distinct ls \<and> list_all label_wf ls"

section \<open>The loop refines the specification\<close>

lemma norm_loop_dedup:
  "distinct out \<Longrightarrow>
   norm_loop out xs = dedup_first (out @ filter (\<lambda>x. x \<noteq> []) (map py_strip xs))"
proof (induction xs arbitrary: out)
  case Nil
  then show ?case by (simp add: dedup_first_def distinct_remdups_id)
next
  case (Cons x xs)
  show ?case
  proof (cases "py_strip x \<noteq> [] \<and> py_strip x \<notin> set out")
    case True
    with Cons.prems have "distinct (out @ [py_strip x])" by simp
    with True Cons.IH show ?thesis by simp
  next
    case False
    with Cons.IH Cons.prems show ?thesis
      by (auto simp: dedup_first_def remdups_append_mem)
  qed
qed

lemma map_strip_ws_ends:
  assumes "\<forall>c \<in> set lead. py_isspace c" "\<forall>c \<in> set trail. py_isspace c"
  shows "map py_strip (py_split CHR '','' (lead @ m @ trail)) = map py_strip (py_split CHR '','' m)"
proof -
  let ?S = "split_acc CHR '','' [] m"
  have ne: "?S \<noteq> []" by (rule split_acc_ne)
  have "py_split CHR '','' (lead @ m @ trail) = split_acc CHR '','' (rev lead) (m @ trail)"
    using assms(1) by (simp add: py_split_def split_acc_append space_not_comma)
  also have "\<dots> = butlast (split_acc CHR '','' (rev lead) m) @ [last (split_acc CHR '','' (rev lead) m) @ trail]"
    using assms(2) by (simp add: split_acc_snoc_ws space_not_comma)
  finally have eq: "py_split CHR '','' (lead @ m @ trail) =
      butlast ((lead @ hd ?S) # tl ?S) @ [last ((lead @ hd ?S) # tl ?S) @ trail]"
    by (metis split_acc_hd_tl rev_rev_ident)
  have "py_split CHR '','' m = hd ?S # tl ?S"
    using ne by (simp add: py_split_def)
  moreover have "map py_strip (butlast ((lead @ h) # t) @ [last ((lead @ h) # t) @ trail]) =
      map py_strip (h # t)" for h t
  proof (cases t rule: rev_cases)
    case Nil
    with assms show ?thesis by (simp add: py_strip_ws_append py_strip_append_ws)
  next
    case (snoc t' z)
    with assms show ?thesis by (simp add: py_strip_ws_append py_strip_append_ws butlast_append)
  qed
  ultimately show ?thesis using eq by simp
qed

lemma label_pieces_strip: "label_pieces (py_strip s) = label_pieces s"
proof -
  obtain lead trail where s: "s = lead @ py_strip s @ trail"
    and l: "\<forall>c \<in> set lead. py_isspace c" and t: "\<forall>c \<in> set trail. py_isspace c"
    by (rule py_strip_decomp)
  have "map py_strip (py_split CHR '','' s) =
        map py_strip (py_split CHR '','' (lead @ py_strip s @ trail))"
    using s by (rule arg_cong)
  also have "\<dots> = map py_strip (py_split CHR '','' (py_strip s))"
    using l t by (rule map_strip_ws_ends)
  finally show ?thesis by (simp add: label_pieces_def)
qed

lemma label_pieces_Nil: "label_pieces [] = []"
  by (simp add: label_pieces_def py_split_def py_strip_def)

lemma normalize_labels_eq_spec: "normalize_labels s = normalize_spec s"
proof (cases "py_strip (py_or_empty s) = []")
  case True
  then have "label_pieces (py_or_empty s) = []"
    using label_pieces_strip [of "py_or_empty s"] by (simp add: label_pieces_Nil)
  with True show ?thesis
    by (simp add: normalize_labels_def normalize_spec_def dedup_first_def)
next
  case False
  then have "normalize_labels s = norm_loop [] (py_split CHR '','' (py_strip (py_or_empty s)))"
    by (simp add: normalize_labels_def)
  also have "\<dots> = dedup_first (label_pieces (py_strip (py_or_empty s)))"
    by (simp add: norm_loop_dedup label_pieces_def)
  finally show ?thesis
    by (simp add: normalize_spec_def label_pieces_strip)
qed
lemma dedup_first_distinct: "distinct xs \<Longrightarrow> dedup_first xs = xs"
  by (simp add: dedup_first_def distinct_remdups_id)

lemma distinct_dedup_first: "distinct (dedup_first xs)"
  by (simp add: dedup_first_def)

lemma set_dedup_first: "set (dedup_first xs) = set xs"
  by (simp add: dedup_first_def)

lemma label_pieces_wf:
  assumes "x \<in> set (label_pieces s)"
  shows "label_wf x"
proof -
  from assms obtain p where p: "p \<in> set (py_split CHR '','' s)" and x: "x = py_strip p" "x \<noteq> []"
    by (auto simp: label_pieces_def)
  from p have "CHR '','' \<notin> set p" by (rule py_split_pieces)
  with x set_py_strip [of p] have "CHR '','' \<notin> set x" by blast
  with x show ?thesis by (simp add: label_wf_def py_strip_idem)
qed

lemma normalize_labels_wf: "labels_wf (normalize_labels s)"
  unfolding labels_wf_def list_all_iff normalize_labels_eq_spec normalize_spec_def
  by (simp add: distinct_dedup_first set_dedup_first label_pieces_wf)

lemma label_pieces_wf_list: "labels_wf ls \<Longrightarrow> label_pieces (py_join '','' ls) = ls"
proof (cases "ls = []")
  case True then show ?thesis by (simp add: label_pieces_Nil)
next
  case False
  assume wf: "labels_wf ls"
  then have "\<forall>x \<in> set ls. CHR '','' \<notin> set x" "\<forall>x \<in> set ls. py_strip x = x \<and> x \<noteq> []"
    by (auto simp: labels_wf_def label_wf_def list_all_iff)
  with False show ?thesis
    by (simp add: label_pieces_def py_split_py_join map_idI filter_True)
qed

section \<open>Kinds and the primary label\<close>

lemma kind_all_iff: "(\<forall>j. P j) \<longleftrightarrow> P Bug \<and> P Db \<and> P Docs \<and> P Feature"
  by (metis issue_kind.exhaust)

lemma kind_name_inj: "kind_name a = kind_name b \<longleftrightarrow> a = b"
  by (cases a; cases b) simp_all

lemma kind_name_wf: "label_wf (kind_name k)"
  by (cases k) (simp_all add: label_wf_def py_strip_def py_isspace_def)

lemma kind_from_labels_classify: "kind_from_labels ls = kind_name (classify (set ls))"
  by (simp add: kind_from_labels_def classify_def kind_precedence_def)

lemma classify_iff:
  "classify L = k \<longleftrightarrow>
     (k = Feature \<or> kind_name k \<in> L) \<and> (\<forall>j. kind_rank j < kind_rank k \<longrightarrow> kind_name j \<notin> L)"
  unfolding kind_all_iff by (cases k) (auto simp: classify_def kind_precedence_def)

lemma ensure_primary_label_wf:
  "labels_wf ls \<Longrightarrow> label_wf k \<Longrightarrow> labels_wf (ensure_primary_label ls k)"
  by (auto simp: ensure_primary_label_def labels_wf_def)

section \<open>Properties of the label component\<close>

text \<open>C5: \<^verbatim>\<open>normalize_labels\<close> refines its specification: its result is the
  list of the stripped, non-empty comma-separated pieces of the raw string, each kept
  at its first occurrence, in first-seen order (the early return on a blank string
  and the stripping of the whole string before the split change nothing).\<close>

theorem normalize_labels_refines:
  "normalize_labels s = dedup_first (label_pieces (py_or_empty s))"
  by (simp add: normalize_labels_eq_spec normalize_spec_def)

text \<open>C6: every label list \<^verbatim>\<open>normalize_labels\<close> returns is free of duplicates,
  and each of its labels is non-empty, has no surrounding whitespace and no comma.\<close>

theorem normalize_labels_invariant:
  "distinct (normalize_labels s) \<and>
   (\<forall>x \<in> set (normalize_labels s). x \<noteq> [] \<and> py_strip x = x \<and> CHR '','' \<notin> set x)"
  using normalize_labels_wf [of s] by (simp add: labels_wf_def label_wf_def list_all_iff)

theorem normalize_labels_invariant_witness:
  "normalize_labels (Some '' bug, vendor ,, bug,db '') = [''bug'', ''vendor'', ''db''] \<and>
   distinct [''bug'', ''vendor'', ''db''] \<and>
   list_all (\<lambda>x. x \<noteq> [] \<and> py_strip x = x \<and> CHR '','' \<notin> set x) [''bug'', ''vendor'', ''db'']"
proof -
  have eval: "normalize_labels (Some '' bug, vendor ,, bug,db '') = [''bug'', ''vendor'', ''db'']"
    by code_simp
  have "distinct (normalize_labels (Some '' bug, vendor ,, bug,db '')) \<and>
    list_all (\<lambda>x. x \<noteq> [] \<and> py_strip x = x \<and> CHR '','' \<notin> set x) (normalize_labels (Some '' bug, vendor ,, bug,db ''))"
    unfolding list_all_iff by (rule normalize_labels_invariant)
  then show ?thesis unfolding eval by (rule conjI [OF refl])
qed

text \<open>C7: normalization is idempotent: joining a normalized list with commas and
  normalizing again gives the same list.\<close>

theorem normalize_labels_idem:
  "normalize_labels (Some (py_join '','' (normalize_labels s))) = normalize_labels s"
  using normalize_labels_wf [of s]
  by (simp add: normalize_labels_eq_spec [of "Some _"] normalize_spec_def py_or_empty_def
      label_pieces_wf_list dedup_first_distinct labels_wf_def)

text \<open>C8: \<^verbatim>\<open>kind_from_labels\<close> returns the name of kind \<open>k\<close> exactly when
  \<open>k\<close>'s label is present (or \<open>k\<close> is the default \<^verbatim>\<open>feature\<close>) and no
  kind of higher precedence (bug over db over docs over feature) has its label present.\<close>

theorem kind_from_labels_precedence:
  "kind_from_labels ls = kind_name k \<longleftrightarrow>
     (k = Feature \<or> kind_name k \<in> set ls) \<and>
     (\<forall>j. kind_rank j < kind_rank k \<longrightarrow> kind_name j \<notin> set ls)"
  by (simp add: kind_from_labels_classify kind_name_inj classify_iff)

theorem kind_from_labels_precedence_witness:
  "kind_from_labels [''db'', ''bug''] = kind_name Bug \<and> kind_from_labels [''db'', ''bug''] \<noteq> kind_name Db \<and>
   kind_from_labels [''vendor''] = kind_name Feature"
  using kind_from_labels_precedence [of "[''db'', ''bug'']" Bug]
    kind_from_labels_precedence [of "[''db'', ''bug'']" Db]
    kind_from_labels_precedence [of "[''vendor'']" Feature]
  by (simp add: kind_all_iff)

text \<open>C9: \<^verbatim>\<open>ensure_primary_label\<close> never duplicates a label: on a duplicate-free
  list its result is duplicate-free, holds exactly the old labels and the kind, puts
  the kind first when it was absent and leaves the list unchanged when it was present.\<close>

theorem ensure_primary_label_props:
  assumes "distinct ls"
  shows "distinct (ensure_primary_label ls k) \<and> set (ensure_primary_label ls k) = insert k (set ls) \<and>
         (k \<notin> set ls \<longrightarrow> ensure_primary_label ls k = k # ls) \<and>
         (k \<in> set ls \<longrightarrow> ensure_primary_label ls k = ls)"
  using assms by (auto simp: ensure_primary_label_def)

theorem ensure_primary_label_props_witness:
  "distinct [''vendor'', ''db''] \<and> ensure_primary_label [''vendor'', ''db''] ''db'' = [''vendor'', ''db''] \<and>
   ensure_primary_label [''vendor''] ''feature'' = [''feature'', ''vendor'']"
proof -
  have d: "distinct [''vendor'', ''db'']" by simp
  have "distinct [''vendor'']" by simp
  from ensure_primary_label_props [OF d, of "''db''"]
    ensure_primary_label_props [OF this, of "''feature''"]
  show ?thesis by simp
qed

end
