(* ===== verification/Inference.thy ===== *)
theory Inference
  imports Labels
begin

text \<open>
  The keyword heuristics \<^verbatim>\<open>infer_dfd\<close> (lines 25--39 of
  \<^verbatim>\<open>src/kanban/create_issues.py\<close>) and \<^verbatim>\<open>infer_role\<close> (41--52): chains
  of \<^verbatim>\<open>if\<close> tests, each a disjunction of substring tests on the lower-cased title
  and membership tests on the label list, the first that holds choosing the result.
  The spec's design note asks for the same decision as an explicit ordered table of
  (tests, result) pairs evaluated until the first match; \<open>first_match\<close> with the
  tables \<open>dfd_rules\<close> and \<open>role_rules\<close> is that table, and the theorems below
  show that the code's chains and the tables agree on every input.
\<close>

section \<open>The code's chains\<close>

text \<open>\<^verbatim>\<open>t = (title or "").lower()\<close>: the title is always a string at the
  call site, so \<^verbatim>\<open>or ""\<close> is the identity and \<open>t\<close> is \<open>py_lower title\<close>.\<close>

definition dfd_p5 :: pystr where
  "dfd_p5 = ''P5 B'' @ [u_acute] @ ''squeda en el sitio''"

definition infer_dfd :: "pystr \<Rightarrow> pystr list \<Rightarrow> pystr" where
  "infer_dfd title labels =
     (let t = py_lower title in
      if py_contains ''p1'' t \<or> py_contains ''crear solicitud'' t then ''P1 Crear Solicitud''
      else if py_contains ''p2'' t \<or> py_contains ''vendor confirma'' t
              \<or> py_contains ''confirma cantidad'' t then ''P2 Vendor Confirma Cantidad''
      else if py_contains ''p3'' t \<or> py_contains ''aprueba'' t \<or> py_contains ''rechaza'' t
           then ''P3 Admin Aprueba/Rechaza''
      else if py_contains ''p4'' t \<or> py_contains ''perfil'' t
              \<or> py_contains ''actualizar perfil'' t then ''P4 Actualizar Perfil''
      else if py_contains ''p5'' t \<or> py_contains (''b'' @ [u_acute] @ ''squeda'') t
              \<or> py_contains ''busqueda'' t \<or> py_contains ''search'' t then dfd_p5
      else if ''requests'' \<in> set labels \<or> py_contains ''solicitud'' t
           then ''P1/P2/P3 (Solicitudes)''
      else ''N/A (fuera del DFD)'')"

definition infer_role :: "pystr \<Rightarrow> pystr list \<Rightarrow> pystr" where
  "infer_role title labels =
     (let labs = set labels; tlow = py_lower title in
      if ''admin'' \<in> labs \<or> py_contains ''admin'' tlow then ''admin''
      else if ''vendor'' \<in> labs \<or> py_contains ''vendor'' tlow then ''vendor''
      else if ''buyer'' \<in> labs \<or> py_contains ''buyer'' tlow then ''buyer''
      else if ''viewer'' \<in> labs \<or> py_contains ''viewer'' tlow then ''viewer''
      else ''N/A'')"

section \<open>The ordered rule tables of the design note\<close>

datatype test = InTitle pystr | InLabels pystr

primrec test_holds :: "pystr \<Rightarrow> pystr list \<Rightarrow> test \<Rightarrow> bool" where
  "test_holds t ls (InTitle k) = py_contains k t"
| "test_holds t ls (InLabels k) = (k \<in> set ls)"

type_synonym 'r rule = "test list \<times> 'r"

fun first_match :: "pystr \<Rightarrow> pystr list \<Rightarrow> 'r rule list \<Rightarrow> 'r \<Rightarrow> 'r" where
  "first_match t ls [] d = d"
| "first_match t ls ((tests, r) # rules) d =
     (if list_ex (test_holds t ls) tests then r else first_match t ls rules d)"

definition dfd_rules :: "pystr rule list" where
  "dfd_rules =
     [([InTitle ''p1'', InTitle ''crear solicitud''], ''P1 Crear Solicitud''),
      ([InTitle ''p2'', InTitle ''vendor confirma'', InTitle ''confirma cantidad''],
        ''P2 Vendor Confirma Cantidad''),
      ([InTitle ''p3'', InTitle ''aprueba'', InTitle ''rechaza''], ''P3 Admin Aprueba/Rechaza''),
      ([InTitle ''p4'', InTitle ''perfil'', InTitle ''actualizar perfil''], ''P4 Actualizar Perfil''),
      ([InTitle ''p5'', InTitle (''b'' @ [u_acute] @ ''squeda''), InTitle ''busqueda'',
        InTitle ''search''], dfd_p5),
      ([InLabels ''requests'', InTitle ''solicitud''], ''P1/P2/P3 (Solicitudes)'')]"

definition role_rules :: "pystr rule list" where
  "role_rules =
     map (\<lambda>r. ([InLabels r, InTitle r], r)) [''admin'', ''vendor'', ''buyer'', ''viewer'']"

definition dfd_table :: "pystr \<Rightarrow> pystr list \<Rightarrow> pystr" where
  "dfd_table title labels = first_match (py_lower title) labels dfd_rules ''N/A (fuera del DFD)''"

definition role_table :: "pystr \<Rightarrow> pystr list \<Rightarrow> pystr" where
  "role_table title labels = first_match (py_lower title) labels role_rules ''N/A''"

section \<open>Properties of the heuristics\<close>

text \<open>C10: the code's \<^verbatim>\<open>if\<close> chain in \<^verbatim>\<open>infer_dfd\<close> decides exactly as the
  ordered table \<open>dfd_rules\<close> evaluated until the first matching rule, with
  \<^verbatim>\<open>N/A (fuera del DFD)\<close> when no rule matches, on every title and label list.\<close>

theorem infer_dfd_table_equiv: "infer_dfd title labels = dfd_table title labels"
  by (simp add: infer_dfd_def dfd_table_def dfd_rules_def Let_def)

text \<open>C11: \<^verbatim>\<open>infer_role\<close> decides exactly as the ordered table \<open>role_rules\<close>
  (admin, vendor, buyer, viewer; each by label membership or title substring), with
  \<^verbatim>\<open>N/A\<close> when none matches.\<close>

theorem infer_role_table_equiv: "infer_role title labels = role_table title labels"
  by (simp add: infer_role_def role_table_def role_rules_def Let_def)

text \<open>C16: the title tests of both heuristics are case-insensitive: two titles that
  lower-case to the same string get the same process and the same role.\<close>

theorem infer_case_insensitive:
  assumes "py_lower t1 = py_lower t2"
  shows "infer_dfd t1 ls = infer_dfd t2 ls \<and> infer_role t1 ls = infer_role t2 ls"
  using assms by (simp add: infer_dfd_def infer_role_def)

theorem infer_case_insensitive_witness:
  "py_lower ''FIX Admin Perfil'' = py_lower ''fix admin PERFIL'' \<and>
   infer_dfd ''FIX Admin Perfil'' [] = infer_dfd ''fix admin PERFIL'' [] \<and>
   infer_role ''FIX Admin Perfil'' [] = infer_role ''fix admin PERFIL'' []"
proof -
  have h: "py_lower ''FIX Admin Perfil'' = py_lower ''fix admin PERFIL''" by code_simp
  show ?thesis using h infer_case_insensitive [OF h, of "[]"] by simp
qed

section \<open>Evaluated cases behind the findings\<close>

text \<open>The label tests are case-sensitive while the title tests are not: a label
  \<^verbatim>\<open>Admin\<close> gives no role, the label \<^verbatim>\<open>admin\<close> or the word ADMIN in the title
  gives the role \<^verbatim>\<open>admin\<close>.\<close>

lemma infer_role_label_case:
  "infer_role ''Fix login'' [''Admin''] = ''N/A'' \<and> infer_role ''Fix login'' [''admin''] = ''admin'' \<and>
   infer_role ''ADMIN login'' [] = ''admin''"
  by code_simp

text \<open>The keyword tests are plain substring tests: a title that merely contains
  \<^verbatim>\<open>p1\<close> inside a word (\<^verbatim>\<open>Setup1\<close>) is classified as process P1, and
  one containing \<^verbatim>\<open>research\<close> as process P5 (search).\<close>

lemma infer_dfd_substring_matches:
  "infer_dfd ''Setup1 del servidor'' [] = ''P1 Crear Solicitud'' \<and>
   infer_dfd ''Research notes'' [] = dfd_p5"
  by code_simp

end
