(* ===== verification/Templates.thy ===== *)
theory Templates
  imports Labels
begin

text \<open>
  The body templates: \<^verbatim>\<open>body_feature\<close> (lines 70--99 of
  \<^verbatim>\<open>src/kanban/create_issues.py\<close>), \<^verbatim>\<open>body_docs\<close> (101--114),
  \<^verbatim>\<open>body_db\<close> (116--132), \<^verbatim>\<open>body_bug\<close> (134--154) and the dispatch
  \<^verbatim>\<open>build_body\<close> (156--163). Each f-string is transcribed as the
  concatenation of its literal parts and its interpolated values, with
  \<open>\<newline>\<close> for each line break of the source and the accented letters as
  their Latin-1 code points (\<open>e_acute\<close> is U+00E9, \<open>i_acute\<close> U+00ED,
  \<open>o_acute\<close> U+00F3, \<open>u_acute\<close> U+00FA). The literal text after the last interpolation is named
  (\<open>docs_tail\<close> and so on) so that the lemmas can speak of it.
\<close>

section \<open>The fixed text of the templates\<close>

definition feature_tail :: pystr where
  "feature_tail =
     '' quiero ______ para ______.\<newline>\<newline>## Criterios de aceptaci'' @ [o_acute] @
     ''n\<newline>- [ ] Validaci'' @ [o_acute] @ ''n server-side aplicada\<newline>'' @
     ''- [ ] Control de acceso por rol verificado\<newline>'' @
     ''- [ ] Se registra en audit_logs cuando corresponde\<newline>'' @
     ''- [ ] UI/flujo probado en local\<newline>\<newline>'' @
     ''## UI / Mockup (si aplica)\<newline>Link o captura: ______\<newline>\<newline>'' @
     ''## Impacto en DB (si aplica)\<newline>Tablas/acciones: ______\<newline>\<newline>'' @
     ''## Definition of Done\<newline>- [ ] Funciona seg'' @ [u_acute] @ ''n criterios\<newline>'' @
     ''- [ ] Sin accesos indebidos por rol\<newline>'' @
     ''- [ ] Evidencia/captura si aplica\<newline>''"

definition docs_tail :: pystr where
  "docs_tail =
     ''\<newline>\<newline>## Qu'' @ [e_acute] @ '' se va a agregar o actualizar\<newline>- ______\<newline>\<newline>'' @
     ''## Ubicaci'' @ [o_acute] @ ''n en el repositorio\<newline>'' @
     ''- ______ (ej. docs/dfd/, docs/mockups/, README.md)\<newline>\<newline>'' @
     ''## Checklist\<newline>- [ ] Link o captura verificable incluida\<newline>'' @
     ''- [ ] Formato y subt'' @ [i_acute] @ ''tulos correctos\<newline>''"

definition db_tail :: pystr where
  "db_tail =
     ''\<newline>\<newline>## Tablas/objetos afectados\<newline>- users\<newline>- requests\<newline>'' @
     ''- request_events\<newline>- audit_logs\<newline>\<newline>'' @
     ''## Migraci'' @ [o_acute] @ ''n / Script\<newline>- Archivo: ______\<newline>- Pasos: ______\<newline>\<newline>'' @
     ''## Rollback\<newline>- ______\<newline>''"

definition bug_tail :: pystr where
  "bug_tail =
     ''\<newline>\<newline>## Pasos para reproducir\<newline>1. ______\<newline>2. ______\<newline>3. ______\<newline>\<newline>'' @
     ''## Comportamiento esperado\<newline>______\<newline>\<newline>'' @
     ''## Comportamiento actual\<newline>______\<newline>\<newline>'' @
     ''## Logs / Capturas\<newline>______\<newline>\<newline>'' @
     ''## Entorno\<newline>- Local (MAMP) / Staging / Producci'' @ [o_acute] @ ''n: ______\<newline>''"

section \<open>The four bodies and the dispatch\<close>

definition body_feature :: "pystr \<Rightarrow> pystr \<Rightarrow> pystr \<Rightarrow> pystr" where
  "body_feature desc dfd role =
     ''## Resumen corto\<newline>'' @ desc @
     ''\<newline>\<newline>## Proceso DFD relacionado\<newline>'' @ dfd @
     ''\<newline>\<newline>## Rol principal\<newline>'' @ role @
     ''\<newline>\<newline>## Historia de usuario\<newline>Como '' @ role @ feature_tail"

definition body_docs :: "pystr \<Rightarrow> pystr" where
  "body_docs desc = ''## Entregable / Documento\<newline>'' @ desc @ docs_tail"

definition body_db :: "pystr \<Rightarrow> pystr" where
  "body_db desc = ''## Objetivo del cambio\<newline>'' @ desc @ db_tail"

definition body_bug :: "pystr \<Rightarrow> pystr" where
  "body_bug desc = ''## Resumen del bug\<newline>'' @ desc @ bug_tail"

definition build_body :: "pystr \<Rightarrow> pystr \<Rightarrow> pystr \<Rightarrow> pystr \<Rightarrow> pystr" where
  "build_body kind desc dfd role =
     (if kind = ''docs'' then body_docs desc
      else if kind = ''db'' then body_db desc
      else if kind = ''bug'' then body_bug desc
      else body_feature desc dfd role)"

section \<open>Reading the description back\<close>

text \<open>The description is interpolated verbatim; \<open>body_desc\<close> recovers it from a
  rendered body, given the kind and, for a feature, the process and the role: the literal text
  before and after the description is \<open>template_parts\<close>.\<close>

definition template_parts :: "pystr \<Rightarrow> pystr \<Rightarrow> pystr \<Rightarrow> pystr \<times> pystr" where
  "template_parts kind dfd role =
     (if kind = ''docs'' then (''## Entregable / Documento\<newline>'', docs_tail)
      else if kind = ''db'' then (''## Objetivo del cambio\<newline>'', db_tail)
      else if kind = ''bug'' then (''## Resumen del bug\<newline>'', bug_tail)
      else (''## Resumen corto\<newline>'',
            ''\<newline>\<newline>## Proceso DFD relacionado\<newline>'' @ dfd @
            ''\<newline>\<newline>## Rol principal\<newline>'' @ role @
            ''\<newline>\<newline>## Historia de usuario\<newline>Como '' @ role @ feature_tail))"

definition body_desc :: "pystr \<Rightarrow> pystr \<Rightarrow> pystr \<Rightarrow> pystr \<Rightarrow> pystr option" where
  "body_desc kind dfd role b = (case template_parts kind dfd role of (pre, post) \<Rightarrow> unfill pre post b)"

text \<open>The heading that opens each body.\<close>

primrec kind_heading :: "issue_kind \<Rightarrow> pystr" where
  "kind_heading Bug = ''## Resumen del bug\<newline>''"
| "kind_heading Db = ''## Objetivo del cambio\<newline>''"
| "kind_heading Docs = ''## Entregable / Documento\<newline>''"
| "kind_heading Feature = ''## Resumen corto\<newline>''"

section \<open>Lemmas on the templates\<close>

lemma build_body_parts:
  "template_parts kind dfd role = (pre, post) \<Longrightarrow> build_body kind desc dfd role = pre @ desc @ post"
  by (auto simp: template_parts_def build_body_def body_docs_def body_db_def body_bug_def
      body_feature_def split: if_splits)

lemma build_body_heading:
  "\<exists>rest. build_body (kind_name k) desc dfd role = kind_heading k @ rest"
  by (cases k) (auto simp: build_body_def body_docs_def body_db_def body_bug_def body_feature_def)

lemma kind_heading_not_prefix:
  "a \<noteq> b \<Longrightarrow> \<not> prefix (kind_heading a) (kind_heading b)"
  by (cases a; cases b) simp_all

section \<open>Properties of the templates\<close>

text \<open>C12: the description is interpolated verbatim and can be read back: for every
  kind, description, process and role, \<open>body_desc\<close> recovers the description from
  the body \<^verbatim>\<open>build_body\<close> renders.\<close>

theorem build_body_roundtrip: "body_desc kind dfd role (build_body kind desc dfd role) = Some desc"
proof -
  obtain pre post where parts: "template_parts kind dfd role = (pre, post)"
    by (cases "template_parts kind dfd role")
  then have "build_body kind desc dfd role = pre @ desc @ post"
    by (rule build_body_parts)
  with parts show ?thesis by (simp only: body_desc_def prod.case unfill_fill)
qed

text \<open>C13: no two kinds share a template shape: the bodies rendered for two different
  kinds differ, whatever the descriptions, processes and roles.\<close>

theorem build_body_kinds_distinct:
  "a \<noteq> b \<Longrightarrow> build_body (kind_name a) d p r \<noteq> build_body (kind_name b) d' p' r'"
  by (metis build_body_heading kind_heading_not_prefix append_ne_if_not_prefix)
theorem build_body_kinds_distinct_witness:
  "Bug \<noteq> Feature \<and> build_body (kind_name Bug) ''x'' ''p'' ''r'' \<noteq> build_body (kind_name Feature) ''x'' ''p'' ''r''"
proof -
  have h: "Bug \<noteq> Feature" by simp
  show ?thesis using h build_body_kinds_distinct [OF h] by simp
qed

end
