(* ===== verification/Issue.thy ===== *)
theory Issue
  imports Inference Templates
begin

text \<open>
  One seed row becomes one issue: the body of the \<^verbatim>\<open>for r in rows\<close> loop of
  \<^verbatim>\<open>main\<close> (lines 189--207 of \<^verbatim>\<open>src/kanban/create_issues.py\<close>), and the
  filter and truncation of the rows before it (lines 181--186). A row of
  \<^verbatim>\<open>csv.DictReader\<close> is a dictionary from the header's column names; a column that
  is absent reads as \<open>None\<close> through \<^verbatim>\<open>r.get\<close>, so each recognised column is
  a \<open>pystr option\<close> field of \<open>seed_row\<close>. \<^verbatim>\<open>r["title"]\<close> raises
  \<^verbatim>\<open>KeyError\<close> on a row without a title column, which is the \<open>KeyError\<close>
  branch of \<open>process_row\<close>; the filter makes that branch unreachable.
\<close>

section \<open>Rows, issues, errors\<close>

record seed_row =
  row_title :: "pystr option"
  row_body :: "pystr option"
  row_labels :: "pystr option"
  row_milestone :: "pystr option"

record issue =
  iss_title :: pystr
  iss_body :: pystr
  iss_labels :: "pystr list"
  iss_milestone :: pystr

text \<open>The exceptions the script can end with: \<^verbatim>\<open>KeyError\<close> from a dictionary
  lookup, \<^verbatim>\<open>SystemExit\<close> raised by \<^verbatim>\<open>run\<close> with the failed command's
  return code, and the \<^verbatim>\<open>OSError\<close> of \<^verbatim>\<open>open\<close> on an unreadable seed file.\<close>

datatype py_error = KeyError pystr | SystemExit int | FileError pystr

section \<open>Selecting the rows\<close>

text \<open>\<^verbatim>\<open>if (r.get("title") or "").strip(): rows.append(r)\<close>\<close>

definition has_title :: "seed_row \<Rightarrow> bool" where
  "has_title r \<longleftrightarrow> py_strip (py_or_empty (row_title r)) \<noteq> []"

definition select_rows :: "seed_row list \<Rightarrow> seed_row list" where
  "select_rows rs = filter has_title rs"

text \<open>\<^verbatim>\<open>if args.limit and args.limit > 0: rows = rows[:args.limit]\<close>; the
  limit is a Python \<^verbatim>\<open>int\<close>, so zero and negative limits leave the rows alone.\<close>

definition limit_rows :: "int \<Rightarrow> 'a list \<Rightarrow> 'a list" where
  "limit_rows limit rows = (if limit \<noteq> 0 \<and> 0 < limit then take (nat limit) rows else rows)"

section \<open>One row\<close>

definition process_row :: "seed_row \<Rightarrow> py_error + issue" where
  "process_row r =
     (case row_title r of
        None \<Rightarrow> Inl (KeyError ''title'')
      | Some t \<Rightarrow>
          (let title = py_strip t;
               desc = py_strip (py_or_empty (row_body r));
               labels = normalize_labels (Some (py_or_empty (row_labels r)));
               milestone = py_strip (py_or_empty (row_milestone r));
               kind = kind_from_labels labels;
               labels = ensure_primary_label labels kind;
               dfd = infer_dfd title labels;
               role = infer_role title labels;
               body = build_body kind desc dfd role
           in Inr \<lparr>iss_title = title, iss_body = body, iss_labels = labels,
                   iss_milestone = milestone\<rparr>))"

text \<open>The argument vector of \<^verbatim>\<open>gh issue create\<close> for an issue.\<close>

definition issue_cmd :: "pystr \<Rightarrow> pystr \<Rightarrow> issue \<Rightarrow> pystr list" where
  "issue_cmd repo project iss =
     (let cmd = [''gh'', ''issue'', ''create'', ''--repo'', repo, ''--title'', iss_title iss,
                 ''--body'', iss_body iss];
          cmd = (if iss_labels iss \<noteq> [] then cmd @ [''--label'', py_join '','' (iss_labels iss)]
                 else cmd);
          cmd = (if iss_milestone iss \<noteq> [] then cmd @ [''--milestone'', iss_milestone iss] else cmd);
          cmd = (if py_strip project \<noteq> [] then cmd @ [''--project'', py_strip project] else cmd)
      in cmd)"

section \<open>Lemmas on one row\<close>

lemma has_title_Some: "has_title r \<Longrightarrow> row_title r \<noteq> None"
  by (cases "row_title r") (simp_all add: has_title_def py_or_empty_def py_strip_def)

lemma process_row_ok: "has_title r \<Longrightarrow> \<exists>iss. process_row r = Inr iss"
  by (auto simp: process_row_def Let_def dest!: has_title_Some)

lemma classify_insert_own: "classify (insert (kind_name (classify L)) L) = classify L"
  by (simp add: classify_def kind_precedence_def)

lemma kind_from_labels_ensure:
  "kind_from_labels (ensure_primary_label ls (kind_from_labels ls)) = kind_from_labels ls"
  by (auto simp: kind_from_labels_classify ensure_primary_label_def classify_insert_own
      simp del: kind_name.simps)

lemma process_row_Inr_labels:
  "process_row r = Inr iss \<Longrightarrow>
   iss_labels iss = ensure_primary_label (normalize_labels (Some (py_or_empty (row_labels r))))
     (kind_from_labels (normalize_labels (Some (py_or_empty (row_labels r)))))"
  by (auto simp: process_row_def Let_def split: option.splits)

lemma process_row_fields:
  assumes "process_row r = Inr iss"
  obtains t where "row_title r = Some t" "iss_title iss = py_strip t"
    "iss_milestone iss = py_strip (py_or_empty (row_milestone r))"
    "iss_body iss = build_body (kind_from_labels (iss_labels iss)) (py_strip (py_or_empty (row_body r)))
        (infer_dfd (iss_title iss) (iss_labels iss)) (infer_role (iss_title iss) (iss_labels iss))"
    "iss_labels iss = ensure_primary_label (normalize_labels (Some (py_or_empty (row_labels r))))
        (kind_from_labels (normalize_labels (Some (py_or_empty (row_labels r)))))"
  using assms by (auto simp: process_row_def Let_def kind_from_labels_ensure split: option.splits)

lemma issue_cmd_label_flag:
  "iss_labels iss \<noteq> [] \<Longrightarrow> sublist [''--label'', py_join '','' (iss_labels iss)] (issue_cmd repo project iss)"
proof -
  assume "iss_labels iss \<noteq> []"
  then have "issue_cmd repo project iss =
      [''gh'', ''issue'', ''create'', ''--repo'', repo, ''--title'', iss_title iss, ''--body'', iss_body iss] @
      [''--label'', py_join '','' (iss_labels iss)] @
      ((if iss_milestone iss \<noteq> [] then [''--milestone'', iss_milestone iss] else []) @
       (if py_strip project \<noteq> [] then [''--project'', py_strip project] else []))"
    by (simp add: issue_cmd_def Let_def)
  then show ?thesis by (metis sublist_appendI)
qed

section \<open>Properties of one row\<close>

text \<open>C14: a row that passes the title filter never raises: \<^verbatim>\<open>r["title"]\<close>
  finds its title, so the row becomes an issue, and the issue's title is not empty.\<close>

theorem select_rows_no_key_error:
  assumes "r \<in> set (select_rows rs)"
  shows "\<exists>iss. process_row r = Inr iss \<and> iss_title iss \<noteq> []"
proof -
  from assms have ht: "has_title r" by (simp add: select_rows_def)
  then obtain t where t: "row_title r = Some t" using has_title_Some by blast
  with ht have "py_strip t \<noteq> []" by (simp add: has_title_def py_or_empty_def)
  with t show ?thesis by (simp add: process_row_def Let_def)
qed

theorem select_rows_no_key_error_witness:
  "\<lparr>row_title = Some ''  Fix login bug '', row_body = None, row_labels = None, row_milestone = None\<rparr>
     \<in> set (select_rows [\<lparr>row_title = Some ''  Fix login bug '', row_body = None, row_labels = None,
                           row_milestone = None\<rparr>]) \<and>
   (\<exists>iss. process_row \<lparr>row_title = Some ''  Fix login bug '', row_body = None, row_labels = None,
        row_milestone = None\<rparr> = Inr iss \<and> iss_title iss \<noteq> [])"
proof -
  have h: "\<lparr>row_title = Some ''  Fix login bug '', row_body = None, row_labels = None, row_milestone = None\<rparr>
     \<in> set (select_rows [\<lparr>row_title = Some ''  Fix login bug '', row_body = None, row_labels = None,
                           row_milestone = None\<rparr>])"
    by code_simp
  show ?thesis by (rule conjI [OF h select_rows_no_key_error [OF h]])
qed

text \<open>C15: the labels of every issue are well formed (distinct, non-empty, stripped,
  comma-free), contain the kind label, classify to the same kind again, and so the
  \<^verbatim>\<open>--label\<close> option is always part of the issue's command.\<close>

theorem process_row_labels:
  assumes "process_row r = Inr iss"
  shows "labels_wf (iss_labels iss) \<and> kind_from_labels (iss_labels iss) \<in> set (iss_labels iss) \<and>
         sublist [''--label'', py_join '','' (iss_labels iss)] (issue_cmd repo project iss)"
proof -
  let ?L = "normalize_labels (Some (py_or_empty (row_labels r)))"
  from assms have l: "iss_labels iss = ensure_primary_label ?L (kind_from_labels ?L)"
    by (rule process_row_Inr_labels)
  have wf: "labels_wf (iss_labels iss)"
    unfolding l by (simp add: ensure_primary_label_wf normalize_labels_wf kind_from_labels_classify kind_name_wf)
  have k: "kind_from_labels (iss_labels iss) \<in> set (iss_labels iss)"
    unfolding l kind_from_labels_ensure by (simp add: ensure_primary_label_def Let_def)
  then have "iss_labels iss \<noteq> []" by auto
  with wf k show ?thesis by (simp add: issue_cmd_label_flag)
qed

theorem process_row_labels_witness:
  "process_row \<lparr>row_title = Some ''T'', row_body = None, row_labels = Some ''vendor, vendor'',
     row_milestone = None\<rparr> = Inr \<lparr>iss_title = ''T'', iss_body = body_feature [] ''N/A (fuera del DFD)'' ''vendor'',
     iss_labels = [''feature'', ''vendor''], iss_milestone = []\<rparr> \<and>
   labels_wf [''feature'', ''vendor''] \<and> kind_from_labels [''feature'', ''vendor''] \<in> set [''feature'', ''vendor''] \<and>
   sublist [''--label'', ''feature,vendor'']
     (issue_cmd ''o/r'' ''BaleSupply'' \<lparr>iss_title = ''T'', iss_body = body_feature [] ''N/A (fuera del DFD)'' ''vendor'',
       iss_labels = [''feature'', ''vendor''], iss_milestone = []\<rparr>)"
proof -
  let ?iss = "\<lparr>iss_title = ''T'', iss_body = body_feature [] ''N/A (fuera del DFD)'' ''vendor'',
     iss_labels = [''feature'', ''vendor''], iss_milestone = []\<rparr>"
  have h: "process_row \<lparr>row_title = Some ''T'', row_body = None, row_labels = Some ''vendor, vendor'',
     row_milestone = None\<rparr> = Inr ?iss"
    by code_simp
  have l: "iss_labels ?iss = [''feature'', ''vendor'']" by simp
  have j: "py_join '','' [''feature'', ''vendor''] = ''feature,vendor''" by simp
  from process_row_labels [OF h, of "''o/r''" "''BaleSupply''"] h show ?thesis
    unfolding l j by blast
qed

section \<open>The spec's scenarios\<close>

text \<open>The scenarios of the spec's test plan, evaluated on the model. Title \<^verbatim>\<open>P1 Crear Solicitud\<close> with no labels gives
  kind feature, process \<^verbatim>\<open>P1 Crear Solicitud\<close>, role \<^verbatim>\<open>N/A\<close>, labels
  \<^verbatim>\<open>["feature"]\<close>, and the feature template.\<close>

lemma scenario_p1:
  "process_row \<lparr>row_title = Some ''P1 Crear Solicitud'', row_body = None, row_labels = Some [],
     row_milestone = None\<rparr> =
   Inr \<lparr>iss_title = ''P1 Crear Solicitud'', iss_body = body_feature [] ''P1 Crear Solicitud'' ''N/A'',
        iss_labels = [''feature''], iss_milestone = []\<rparr>"
  by code_simp

text \<open>Title \<^verbatim>\<open>Fix login bug\<close> with labels
  \<^verbatim>\<open>bug,vendor\<close> gives labels \<^verbatim>\<open>["bug","vendor"]\<close> (bug not duplicated), role
  vendor, and the bug template with the description inserted verbatim.\<close>

lemma scenario_bug:
  "process_row \<lparr>row_title = Some ''Fix login bug'', row_body = Some '' Login fails '',
     row_labels = Some ''bug,vendor'', row_milestone = Some ''M1''\<rparr> =
   Inr \<lparr>iss_title = ''Fix login bug'', iss_body = body_bug ''Login fails'',
        iss_labels = [''bug'', ''vendor''], iss_milestone = ''M1''\<rparr> \<and>
   infer_role ''Fix login bug'' [''bug'', ''vendor''] = ''vendor''"
  by code_simp

text \<open>Rows with an empty or blank title are dropped before
  counting, and a limit of 2 keeps the first two remaining rows in file order.\<close>

lemma select_limit_scenario:
  "limit_rows 2 (select_rows
     [\<lparr>row_title = Some ''A'', row_body = None, row_labels = None, row_milestone = None\<rparr>,
      \<lparr>row_title = Some ''  '', row_body = None, row_labels = None, row_milestone = None\<rparr>,
      \<lparr>row_title = None, row_body = None, row_labels = None, row_milestone = None\<rparr>,
      \<lparr>row_title = Some ''B'', row_body = None, row_labels = None, row_milestone = None\<rparr>,
      \<lparr>row_title = Some ''C'', row_body = None, row_labels = None, row_milestone = None\<rparr>]) =
   [\<lparr>row_title = Some ''A'', row_body = None, row_labels = None, row_milestone = None\<rparr>,
    \<lparr>row_title = Some ''B'', row_body = None, row_labels = None, row_milestone = None\<rparr>]"
  by code_simp

end
