(* ===== verification/Driver.thy ===== *)
theory Driver
  imports Issue "HOL-Library.Word"
begin

text \<open>
  The script's effects: \<^verbatim>\<open>run\<close> (lines 4--12 of
  \<^verbatim>\<open>src/kanban/create_issues.py\<close>), \<^verbatim>\<open>gh_repo_from_cwd\<close> (165--166),
  \<^verbatim>\<open>main\<close> after argument parsing (177--214) and the process exit status
  (216--217). The state the script changes outside itself is \<open>io_state\<close>: the
  lines written to standard output and standard error and the commands handed to
  the external \<^verbatim>\<open>gh\<close> tool, in order. The tool itself is not modelled: it is a
  parameter \<open>gh\<close> of type \<open>gh_tool\<close>, which answers a command with a
  return code and its captured output and may depend on every command run before
  (so an issue tracker that changes with each created issue is covered). An
  action is a function from the state to a result, \<open>py_error + 'a\<close> with the
  exception on the left, and the next state; \<open>io_bind\<close> runs the second action
  only when the first returns normally, as Python's exceptions do.
\<close>

section \<open>State, actions and the external tool\<close>

record io_state =
  st_stdout :: "pystr list"
  st_stderr :: "pystr list"
  st_calls :: "pystr list list"

record proc_result =
  returncode :: int
  proc_stdout :: pystr
  proc_stderr :: pystr

type_synonym gh_tool = "pystr list list \<Rightarrow> pystr list \<Rightarrow> proc_result"

type_synonym 'a io = "io_state \<Rightarrow> (py_error + 'a) \<times> io_state"

definition io_return :: "'a \<Rightarrow> 'a io" where
  "io_return x st = (Inr x, st)"

definition io_raise :: "py_error \<Rightarrow> 'a io" where
  "io_raise e st = (Inl e, st)"

definition io_bind :: "'a io \<Rightarrow> ('a \<Rightarrow> 'b io) \<Rightarrow> 'b io" where
  "io_bind m f st = (case m st of (Inl e, st') \<Rightarrow> (Inl e, st') | (Inr x, st') \<Rightarrow> f x st')"

definition print_out :: "pystr \<Rightarrow> unit io" where
  "print_out s st = (Inr (), st\<lparr>st_stdout := st_stdout st @ [s]\<rparr>)"

definition print_err :: "pystr \<Rightarrow> unit io" where
  "print_err s st = (Inr (), st\<lparr>st_stderr := st_stderr st @ [s]\<rparr>)"

definition when_io :: "bool \<Rightarrow> unit io \<Rightarrow> unit io" where
  "when_io b m = (if b then m else io_return ())"

text \<open>\<^verbatim>\<open>subprocess.run(cmd, capture_output=True, text=True)\<close>: the command
  is recorded and the tool's answer is read.\<close>

definition subprocess_run :: "gh_tool \<Rightarrow> pystr list \<Rightarrow> proc_result io" where
  "subprocess_run gh cmd st =
     (Inr (gh (st_calls st) cmd), st\<lparr>st_calls := st_calls st @ [cmd]\<rparr>)"

section \<open>\<^verbatim>\<open>run\<close> and \<^verbatim>\<open>gh_repo_from_cwd\<close>\<close>

definition run :: "gh_tool \<Rightarrow> pystr list \<Rightarrow> pystr io" where
  "run gh cmd =
     io_bind (subprocess_run gh cmd) (\<lambda>p.
       if returncode p \<noteq> 0 then
         io_bind (when_io (py_strip (proc_stdout p) \<noteq> []) (print_out (py_strip (proc_stdout p))))
           (\<lambda>_. io_bind (when_io (py_strip (proc_stderr p) \<noteq> []) (print_err (py_strip (proc_stderr p))))
             (\<lambda>_. io_raise (SystemExit (returncode p))))
       else io_return (py_strip (proc_stdout p)))"

definition repo_view_cmd :: "pystr list" where
  "repo_view_cmd = [''gh'', ''repo'', ''view'', ''--json'', ''nameWithOwner'', ''-q'', ''.nameWithOwner'']"

definition gh_repo_from_cwd :: "gh_tool \<Rightarrow> pystr io" where
  "gh_repo_from_cwd gh = run gh repo_view_cmd"

section \<open>\<^verbatim>\<open>main\<close>\<close>

text \<open>The parsed command line; \<^verbatim>\<open>argparse\<close> itself is not modelled.\<close>

record args =
  arg_repo :: pystr
  arg_seed :: pystr
  arg_project :: pystr
  arg_limit :: int
  arg_dry_run :: bool

text \<open>The seed file: \<open>None\<close> when \<^verbatim>\<open>open\<close> fails, else the rows that
  \<^verbatim>\<open>csv.DictReader\<close> yields; the CSV parser itself is not modelled.\<close>

type_synonym seed_files = "pystr \<Rightarrow> seed_row list option"

definition read_seed :: "seed_files \<Rightarrow> pystr \<Rightarrow> seed_row list io" where
  "read_seed files path =
     (case files path of None \<Rightarrow> io_raise (FileError path)
      | Some rs \<Rightarrow> io_return (select_rows rs))"

text \<open>One iteration of \<^verbatim>\<open>for r in rows\<close>: build the issue and its command,
  then print it (dry run) or run it.\<close>

definition submit_row :: "gh_tool \<Rightarrow> args \<Rightarrow> pystr \<Rightarrow> seed_row \<Rightarrow> unit io" where
  "submit_row gh a repo r =
     (case process_row r of
        Inl e \<Rightarrow> io_raise e
      | Inr iss \<Rightarrow>
          (let cmd = issue_cmd repo (arg_project a) iss in
           if arg_dry_run a then print_out (''DRY: '' @ py_join '' '' cmd)
           else io_bind (run gh cmd) (\<lambda>_. io_return ())))"

fun submit_rows :: "gh_tool \<Rightarrow> args \<Rightarrow> pystr \<Rightarrow> seed_row list \<Rightarrow> unit io" where
  "submit_rows gh a repo [] = io_return ()"
| "submit_rows gh a repo (r # rs) =
     io_bind (submit_row gh a repo r) (\<lambda>_. submit_rows gh a repo rs)"

definition ok_line :: "nat \<Rightarrow> pystr \<Rightarrow> pystr" where
  "ok_line n repo = ''OK: created '' @ py_str_nat n @ '' issues in '' @ repo"

definition main :: "gh_tool \<Rightarrow> seed_files \<Rightarrow> args \<Rightarrow> unit io" where
  "main gh files a =
     io_bind (if py_strip (arg_repo a) \<noteq> [] then io_return (py_strip (arg_repo a))
              else gh_repo_from_cwd gh) (\<lambda>repo.
     io_bind (read_seed files (arg_seed a)) (\<lambda>selected.
       (let rows = limit_rows (arg_limit a) selected in
        io_bind (submit_rows gh a repo rows) (\<lambda>_.
          print_out (ok_line (length rows) repo)))))"

text \<open>Reading the summary line back: the count after \<^verbatim>\<open>OK: created \<close> is
  the longest run of digits, and the repository is everything after
  \<^verbatim>\<open> issues in \<close>.\<close>

definition read_ok_line :: "pystr \<Rightarrow> (nat \<times> pystr) option" where
  "read_ok_line s =
     (if starts_with ''OK: created '' s then
        (let rest = drop 12 s; ds = takeWhile is_digit rest; tl = dropWhile is_digit rest in
         if ds \<noteq> [] \<and> starts_with '' issues in '' tl then Some (digits_val 0 ds, drop 11 tl) else None)
      else None)"

section \<open>The submission loop as a relation\<close>

text \<open>
  The spec's contract for the loop (sections 5 and 7): the commands are submitted one
  at a time, in order; each completes before the next starts; the first failure ends
  the run with the failed command's status, and nothing after it is submitted.
  \<open>submits gh h cs out\<close> says that submitting the commands \<open>cs\<close> after the
  history \<open>h\<close> ends with \<open>out\<close>: \<open>Completed\<close> with the final history, or
  \<open>Aborted\<close> with the history up to the failed command and its return code.
\<close>

datatype run_outcome = Completed "pystr list list" | Aborted "pystr list list" int

inductive submits :: "gh_tool \<Rightarrow> pystr list list \<Rightarrow> pystr list list \<Rightarrow> run_outcome \<Rightarrow> bool" where
  submits_done: "submits gh h [] (Completed h)"
| submits_ok: "returncode (gh h c) = 0 \<Longrightarrow> submits gh (h @ [c]) cs out \<Longrightarrow> submits gh h (c # cs) out"
| submits_fail: "returncode (gh h c) \<noteq> 0 \<Longrightarrow> submits gh h (c # cs) (Aborted (h @ [c]) (returncode (gh h c)))"

definition row_cmd :: "pystr \<Rightarrow> pystr \<Rightarrow> seed_row \<Rightarrow> pystr list" where
  "row_cmd repo project r = (case process_row r of Inl _ \<Rightarrow> [] | Inr iss \<Rightarrow> issue_cmd repo project iss)"

text \<open>What a failed \<^verbatim>\<open>run\<close> echoes before it exits.\<close>

definition failed_out :: "proc_result \<Rightarrow> pystr list" where
  "failed_out p = (if py_strip (proc_stdout p) \<noteq> [] then [py_strip (proc_stdout p)] else [])"

definition failed_err :: "proc_result \<Rightarrow> pystr list" where
  "failed_err p = (if py_strip (proc_stderr p) \<noteq> [] then [py_strip (proc_stderr p)] else [])"

section \<open>The exit status of the process\<close>

text \<open>
  A normal return exits with status 0. \<^verbatim>\<open>SystemExit(code)\<close> with an integer code
  makes the interpreter call \<^verbatim>\<open>exit(code)\<close>, and the operating system keeps the
  low eight bits: the status is an 8-bit word. Any other uncaught exception is
  reported and exits with status 1.
\<close>

definition exit_status :: "py_error + unit \<Rightarrow> 8 word" where
  "exit_status r =
     (case r of Inr _ \<Rightarrow> 0
      | Inl (SystemExit c) \<Rightarrow> word_of_int c
      | Inl _ \<Rightarrow> 1)"

section \<open>A sample run\<close>

text \<open>Test data for the witnesses: four seed rows, one of them without a title, and a
  \<^verbatim>\<open>gh\<close> that accepts the first command and fails every later one, and one that
  accepts every command.\<close>

abbreviation sample_row :: "pystr \<Rightarrow> pystr \<Rightarrow> seed_row" where
  "sample_row t ls \<equiv> \<lparr>row_title = Some t, row_body = Some ''desc'', row_labels = Some ls, row_milestone = None\<rparr>"

abbreviation sample_rows :: "seed_row list" where
  "sample_rows \<equiv> [sample_row ''Crear solicitud'' ''requests'', sample_row ''  '' [],
                  sample_row ''Fix login bug'' ''bug,vendor'', sample_row ''Docs DFD'' ''docs'']"

abbreviation sample_selected :: "seed_row list" where
  "sample_selected \<equiv> [sample_row ''Crear solicitud'' ''requests'',
                      sample_row ''Fix login bug'' ''bug,vendor'', sample_row ''Docs DFD'' ''docs'']"

abbreviation sample_files :: seed_files where
  "sample_files \<equiv> (\<lambda>p. if p = ''kanban/issues_seed.csv'' then Some sample_rows else None)"

abbreviation sample_args :: args where
  "sample_args \<equiv> \<lparr>arg_repo = '' o/r '', arg_seed = ''kanban/issues_seed.csv'', arg_project = ''BaleSupply'',
                  arg_limit = 0, arg_dry_run = False\<rparr>"

abbreviation sample_gh :: gh_tool where
  "sample_gh \<equiv> (\<lambda>h c. \<lparr>returncode = (if h = [] then 0 else 1), proc_stdout = [],
                        proc_stderr = '' HTTP 422 ''\<rparr>)"

abbreviation sample_gh_ok :: gh_tool where
  "sample_gh_ok \<equiv> (\<lambda>h c. \<lparr>returncode = 0, proc_stdout = ''https://github.com/o/r/issues/1'', proc_stderr = []\<rparr>)"

abbreviation sample_gh_killed :: gh_tool where
  "sample_gh_killed \<equiv> (\<lambda>h c. \<lparr>returncode = (if h = [] then 0 else -9), proc_stdout = [], proc_stderr = []\<rparr>)"

abbreviation sample_gh_lookup :: gh_tool where
  "sample_gh_lookup \<equiv> (\<lambda>h c. \<lparr>returncode = 0,
     proc_stdout = (if c = repo_view_cmd then ''o/r\<newline>'' else ''https://github.com/o/r/issues/1''),
     proc_stderr = []\<rparr>)"

abbreviation sample_state :: io_state where
  "sample_state \<equiv> \<lparr>st_stdout = [], st_stderr = [], st_calls = []\<rparr>"

section \<open>Actions\<close>

lemma io_bind_return [simp]: "io_bind (io_return x) f = f x"
  by (simp add: io_bind_def io_return_def fun_eq_iff)

lemma io_bind_raise [simp]: "io_bind (io_raise e) f = io_raise e"
  by (simp add: io_bind_def io_raise_def fun_eq_iff)

lemma io_bind_apply:
  "io_bind m f st = (case m st of (Inl e, st') \<Rightarrow> (Inl e, st') | (Inr x, st') \<Rightarrow> f x st')"
  by (simp add: io_bind_def)

lemma run_eq:
  "run gh cmd st =
     (let p = gh (st_calls st) cmd; st1 = st\<lparr>st_calls := st_calls st @ [cmd]\<rparr> in
      if returncode p \<noteq> 0 then
        (Inl (SystemExit (returncode p)),
         st1\<lparr>st_stdout := st_stdout st @ failed_out p, st_stderr := st_stderr st @ failed_err p\<rparr>)
      else (Inr (py_strip (proc_stdout p)), st1))"
  by (simp add: run_def io_bind_def subprocess_run_def when_io_def print_out_def print_err_def
      io_return_def io_raise_def failed_out_def failed_err_def Let_def)

section \<open>The loop refines the relation\<close>

inductive_cases submits_NilE: "submits gh h [] out"
inductive_cases submits_ConsE: "submits gh h (c # cs) out"

lemma submit_row_live:
  assumes "\<not> arg_dry_run a" "has_title r"
  shows "submit_row gh a repo r = io_bind (run gh (row_cmd repo (arg_project a) r)) (\<lambda>_. io_return ())"
  using assms process_row_ok [of r]
  by (auto simp: submit_row_def row_cmd_def)

lemma submit_rows_refines:
  assumes "\<not> arg_dry_run a" "list_all has_title rows"
    and "submit_rows gh a repo rows st = (res, st')"
  shows "(res = Inr () \<and> submits gh (st_calls st) (map (row_cmd repo (arg_project a)) rows) (Completed (st_calls st'))
           \<and> st_stdout st' = st_stdout st \<and> st_stderr st' = st_stderr st) \<or>
         (\<exists>c h cmd. res = Inl (SystemExit c)
           \<and> submits gh (st_calls st) (map (row_cmd repo (arg_project a)) rows) (Aborted (h @ [cmd]) c)
           \<and> st_calls st' = h @ [cmd] \<and> st_stdout st' = st_stdout st @ failed_out (gh h cmd)
           \<and> st_stderr st' = st_stderr st @ failed_err (gh h cmd))"
  using assms(2,3)
proof (induction rows arbitrary: st)
  case Nil
  then show ?case by (auto simp: io_return_def intro: submits_done)
next
  case (Cons r rs)
  let ?c = "row_cmd repo (arg_project a) r"
  let ?cs = "map (row_cmd repo (arg_project a)) rs"
  have sub: "submit_row gh a repo r = io_bind (run gh ?c) (\<lambda>_. io_return ())"
    using assms(1) Cons.prems(1) by (simp add: submit_row_live)
  show ?case
  proof (cases "returncode (gh (st_calls st) ?c) = 0")
    case True
    let ?st1 = "st\<lparr>st_calls := st_calls st @ [?c]\<rparr>"
    from True have "submit_rows gh a repo (r # rs) st = submit_rows gh a repo rs ?st1"
      by (simp add: sub io_bind_apply run_eq io_return_def)
    with Cons.prems have "submit_rows gh a repo rs ?st1 = (res, st')" by simp
    with Cons.IH Cons.prems(1) have
      "(res = Inr () \<and> submits gh (st_calls st @ [?c]) ?cs (Completed (st_calls st'))
          \<and> st_stdout st' = st_stdout st \<and> st_stderr st' = st_stderr st) \<or>
       (\<exists>c h cmd. res = Inl (SystemExit c) \<and> submits gh (st_calls st @ [?c]) ?cs (Aborted (h @ [cmd]) c)
          \<and> st_calls st' = h @ [cmd] \<and> st_stdout st' = st_stdout st @ failed_out (gh h cmd)
          \<and> st_stderr st' = st_stderr st @ failed_err (gh h cmd))"
      by fastforce
    with True show ?thesis by (auto intro: submits_ok)
  next
    case False
    let ?p = "gh (st_calls st) ?c"
    from False Cons.prems(2) have "res = Inl (SystemExit (returncode ?p))"
      and "st_calls st' = st_calls st @ [?c]" and "st_stdout st' = st_stdout st @ failed_out ?p"
      and "st_stderr st' = st_stderr st @ failed_err ?p"
      by (auto simp: sub io_bind_apply run_eq Let_def)
    moreover from False have
      "submits gh (st_calls st) (?c # ?cs) (Aborted (st_calls st @ [?c]) (returncode ?p))"
      by (rule submits_fail)
    ultimately show ?thesis
      by (intro disjI2 exI [of _ "returncode ?p"] exI [of _ "st_calls st"] exI [of _ ?c]) simp
  qed
qed

lemma submits_determ: "submits gh h cs o1 \<Longrightarrow> submits gh h cs o2 \<Longrightarrow> o2 = o1"
  by (induction arbitrary: o2 rule: submits.induct) (blast elim: submits_NilE submits_ConsE)+

lemma submits_total: "\<exists>out. submits gh h cs out"
proof (induction cs arbitrary: h)
  case Nil then show ?case by (blast intro: submits_done)
next
  case (Cons c cs)
  show ?case
  proof (cases "returncode (gh h c) = 0")
    case True
    with Cons.IH [of "h @ [c]"] show ?thesis by (blast intro: submits_ok)
  next
    case False then show ?thesis by (blast intro: submits_fail)
  qed
qed

lemma submits_unique: "\<exists>!out. submits gh h cs out"
  using submits_total [of gh h cs] submits_determ [of gh h cs] by blast


lemma submits_Completed:
  "submits gh h cs (Completed h') \<Longrightarrow>
   h' = h @ cs \<and> (\<forall>j < length cs. returncode (gh (h @ take j cs) (cs ! j)) = 0)"
proof (induction h cs "Completed h'" rule: submits.induct)
  case (submits_done h)
  then show ?case by simp
next
  case (submits_ok h c cs)
  then show ?case by (auto simp: nth_Cons' take_Cons')
qed

lemma submits_Aborted:
  "submits gh h cs (Aborted h' rc) \<Longrightarrow>
   rc \<noteq> 0 \<and> (\<exists>k < length cs. h' = h @ take (Suc k) cs \<and> rc = returncode (gh (h @ take k cs) (cs ! k))
              \<and> (\<forall>j < k. returncode (gh (h @ take j cs) (cs ! j)) = 0))"
proof (induction h cs "Aborted h' rc" rule: submits.induct)
  case (submits_ok gh h c cs)
  then have "rc \<noteq> 0" by blast
  from submits_ok obtain k where "k < length cs" "h' = (h @ [c]) @ take (Suc k) cs"
    "rc = returncode (gh ((h @ [c]) @ take k cs) (cs ! k))"
    "\<forall>j < k. returncode (gh ((h @ [c]) @ take j cs) (cs ! j)) = 0" by blast
  with submits_ok.hyps(1) \<open>rc \<noteq> 0\<close> show ?case
    by (intro conjI exI [of _ "Suc k"]) (auto simp: nth_Cons' take_Cons' less_Suc_eq_0_disj)
next
  case (submits_fail gh h c cs)
  then show ?case by (intro conjI exI [of _ 0]) auto
qed
section \<open>Lemmas on \<^verbatim>\<open>main\<close>\<close>

lemma set_limit_rows: "set (limit_rows n xs) \<subseteq> set xs"
  by (auto simp: limit_rows_def dest: in_set_takeD)

lemma list_all_has_title_rows: "list_all has_title (limit_rows n (select_rows rs))"
  using set_limit_rows [of n "select_rows rs"] by (auto simp: list_all_iff select_rows_def)

lemma main_given_repo:
  assumes "py_strip (arg_repo a) \<noteq> []" "files (arg_seed a) = Some rs"
  shows "main gh files a =
    io_bind (submit_rows gh a (py_strip (arg_repo a)) (limit_rows (arg_limit a) (select_rows rs)))
      (\<lambda>_. print_out (ok_line (length (limit_rows (arg_limit a) (select_rows rs))) (py_strip (arg_repo a))))"
  using assms by (simp add: main_def read_seed_def Let_def)

lemma submit_rows_dry:
  assumes "arg_dry_run a" "list_all has_title rows"
  shows "submit_rows gh a repo rows st =
    (Inr (), st\<lparr>st_stdout := st_stdout st @ map (\<lambda>r. ''DRY: '' @ py_join '' '' (row_cmd repo (arg_project a) r)) rows\<rparr>)"
  using assms(2)
proof (induction rows arbitrary: st)
  case Nil then show ?case by (simp add: io_return_def)
next
  case (Cons r rs)
  from Cons.prems obtain iss where "process_row r = Inr iss"
    using process_row_ok by auto
  with assms(1) Cons.prems Cons.IH show ?case
    by (simp add: io_bind_apply submit_row_def row_cmd_def print_out_def)
qed

lemma exit_status_SystemExit: "unat (exit_status (Inl (SystemExit c))) = nat (c mod 256)"
  by (simp add: exit_status_def unat_eq_nat_uint uint_word_of_int_eq take_bit_eq_mod)

lemma submit_row_arg_repo: "submit_row gh (a\<lparr>arg_repo := x\<rparr>) repo r = submit_row gh a repo r"
  by (simp add: submit_row_def split: sum.split)

lemma submit_rows_arg_repo: "submit_rows gh (a\<lparr>arg_repo := x\<rparr>) repo rows = submit_rows gh a repo rows"
  by (induction rows) (simp_all add: submit_row_arg_repo)

lemma exit_status_first_fail:
  assumes "submits gh h cs out"
    and "res = (case out of Completed _ \<Rightarrow> Inr () | Aborted _ c \<Rightarrow> Inl (SystemExit c))"
  shows "unat (exit_status res) =
    (case find (\<lambda>j. returncode (gh (h @ take j cs) (cs ! j)) \<noteq> 0) [0..<length cs] of
       None \<Rightarrow> 0
     | Some k \<Rightarrow> nat (returncode (gh (h @ take k cs) (cs ! k)) mod 256))"
proof (cases out)
  case (Completed h')
  with submits_Completed [of gh h cs h'] assms
  have "find (\<lambda>j. returncode (gh (h @ take j cs) (cs ! j)) \<noteq> 0) [0..<length cs] = None"
    by (simp add: find_None_iff)
  with Completed assms show ?thesis by (simp add: exit_status_def)
next
  case (Aborted h' c)
  with submits_Aborted [of gh h cs h' c] assms obtain k where k: "k < length cs"
    and c: "c = returncode (gh (h @ take k cs) (cs ! k))" "c \<noteq> 0"
    and before: "\<forall>j < k. returncode (gh (h @ take j cs) (cs ! j)) = 0" by blast
  then have "find (\<lambda>j. returncode (gh (h @ take j cs) (cs ! j)) \<noteq> 0) [0..<length cs] = Some k"
    by (auto simp: find_Some_iff intro!: exI [of _ k])
  with Aborted assms c show ?thesis by (simp add: exit_status_SystemExit)
qed

lemma main_live_submits:
  assumes "\<not> arg_dry_run a" "py_strip (arg_repo a) \<noteq> []" "files (arg_seed a) = Some rs"
    and "main gh files a st = (res, st')"
    and rows: "rows = limit_rows (arg_limit a) (select_rows rs)"
    and repo: "repo = py_strip (arg_repo a)"
  shows "(res = Inr () \<and> submits gh (st_calls st) (map (row_cmd repo (arg_project a)) rows) (Completed (st_calls st'))
           \<and> st_stdout st' = st_stdout st @ [ok_line (length rows) repo] \<and> st_stderr st' = st_stderr st) \<or>
         (\<exists>c h cmd. res = Inl (SystemExit c)
           \<and> submits gh (st_calls st) (map (row_cmd repo (arg_project a)) rows) (Aborted (h @ [cmd]) c)
           \<and> st_calls st' = h @ [cmd] \<and> st_stdout st' = st_stdout st @ failed_out (gh h cmd)
           \<and> st_stderr st' = st_stderr st @ failed_err (gh h cmd))"
proof -
  obtain res1 st1 where sub: "submit_rows gh a repo rows st = (res1, st1)" by fastforce
  have all: "list_all has_title rows" unfolding rows by (rule list_all_has_title_rows)
  have main: "(res, st') = io_bind (submit_rows gh a repo rows) (\<lambda>_. print_out (ok_line (length rows) repo)) st"
    using assms(4) main_given_repo [where a = a and files = files and rs = rs and gh = gh, OF assms(2,3)] by (simp add: rows repo)
  from submit_rows_refines [OF assms(1) all sub] show ?thesis
  proof
    assume "res1 = Inr () \<and> submits gh (st_calls st) (map (row_cmd repo (arg_project a)) rows) (Completed (st_calls st1))
           \<and> st_stdout st1 = st_stdout st \<and> st_stderr st1 = st_stderr st"
    with main sub show ?thesis by (auto simp: io_bind_apply print_out_def)
  next
    assume "\<exists>c h cmd. res1 = Inl (SystemExit c)
           \<and> submits gh (st_calls st) (map (row_cmd repo (arg_project a)) rows) (Aborted (h @ [cmd]) c)
           \<and> st_calls st1 = h @ [cmd] \<and> st_stdout st1 = st_stdout st @ failed_out (gh h cmd)
           \<and> st_stderr st1 = st_stderr st @ failed_err (gh h cmd)"
    with main sub show ?thesis by (auto simp: io_bind_apply)
  qed
qed

section \<open>Properties of the driver\<close>

text \<open>C1: a live run (no \<^verbatim>\<open>--dry-run\<close>, repository given, seed file readable)
  that returns normally has submitted the command of every selected row, truncated to
  the limit, once each and in file order; each returned 0; the only line printed is
  the summary \<^verbatim>\<open>OK: created N issues in REPO\<close> with N the number of those rows.\<close>

theorem main_live_completes:
  assumes "\<not> arg_dry_run a" "py_strip (arg_repo a) \<noteq> []" "files (arg_seed a) = Some rs"
    and "main gh files a st = (Inr (), st')"
    and rows: "rows = limit_rows (arg_limit a) (select_rows rs)"
    and repo: "repo = py_strip (arg_repo a)"
    and cmds: "cmds = map (row_cmd repo (arg_project a)) rows"
  shows "st_calls st' = st_calls st @ cmds \<and>
         (\<forall>j < length cmds. returncode (gh (st_calls st @ take j cmds) (cmds ! j)) = 0) \<and>
         st_stdout st' = st_stdout st @ [ok_line (length rows) repo] \<and> st_stderr st' = st_stderr st"
  using main_live_submits [OF assms(1-4) rows repo] submits_Completed [of gh "st_calls st" cmds]
  unfolding cmds by auto

theorem main_live_completes_witness:
  "\<not> arg_dry_run sample_args \<and> py_strip (arg_repo sample_args) \<noteq> [] \<and>
   sample_files (arg_seed sample_args) = Some sample_rows \<and>
   main sample_gh_ok sample_files sample_args sample_state =
     (Inr (), snd (main sample_gh_ok sample_files sample_args sample_state)) \<and>
   sample_selected = limit_rows (arg_limit sample_args) (select_rows sample_rows) \<and>
   ''o/r'' = py_strip (arg_repo sample_args) \<and>
   (let st' = snd (main sample_gh_ok sample_files sample_args sample_state);
        cmds = map (row_cmd ''o/r'' (arg_project sample_args)) sample_selected in
    st_calls st' = st_calls sample_state @ cmds \<and>
    st_stdout st' = st_stdout sample_state @ [ok_line (length sample_selected) ''o/r''] \<and>
    st_stderr st' = st_stderr sample_state)"
proof -
  have d: "\<not> arg_dry_run sample_args" by simp
  have p: "py_strip (arg_repo sample_args) \<noteq> []" by code_simp
  have f: "sample_files (arg_seed sample_args) = Some sample_rows" by simp
  have ok: "fst (main sample_gh_ok sample_files sample_args sample_state) = Inr ()" by code_simp
  then have m: "main sample_gh_ok sample_files sample_args sample_state =
     (Inr (), snd (main sample_gh_ok sample_files sample_args sample_state))"
    by (metis prod.collapse)
  have r: "sample_selected = limit_rows (arg_limit sample_args) (select_rows sample_rows)" by code_simp
  have e: "''o/r'' = py_strip (arg_repo sample_args)" by code_simp
  note inst = main_live_completes [where files = sample_files and rs = sample_rows, OF d p f m r e refl]
  show ?thesis unfolding Let_def using d p f m r e inst by blast
qed

text \<open>C2: a live run that ends with an exception ends with \<^verbatim>\<open>SystemExit\<close> of the
  first failing command: some command \<open>k\<close> of the selected rows returned a
  non-zero code and is the exception's code, every command before it returned 0,
  exactly the commands up to and including \<open>k\<close> were submitted (none after it), and
  the only output is the failed command's stripped stdout and stderr; the summary line
  is not printed.\<close>

theorem main_live_aborts:
  assumes "\<not> arg_dry_run a" "py_strip (arg_repo a) \<noteq> []" "files (arg_seed a) = Some rs"
    and "main gh files a st = (Inl e, st')"
    and rows: "rows = limit_rows (arg_limit a) (select_rows rs)"
    and repo: "repo = py_strip (arg_repo a)"
    and cmds: "cmds = map (row_cmd repo (arg_project a)) rows"
  shows "\<exists>k < length cmds.
           returncode (gh (st_calls st @ take k cmds) (cmds ! k)) \<noteq> 0 \<and>
           e = SystemExit (returncode (gh (st_calls st @ take k cmds) (cmds ! k))) \<and>
           (\<forall>j < k. returncode (gh (st_calls st @ take j cmds) (cmds ! j)) = 0) \<and>
           st_calls st' = st_calls st @ take (Suc k) cmds \<and>
           st_stdout st' = st_stdout st @ failed_out (gh (st_calls st @ take k cmds) (cmds ! k)) \<and>
           st_stderr st' = st_stderr st @ failed_err (gh (st_calls st @ take k cmds) (cmds ! k))"
proof -
  from main_live_submits [OF assms(1-4) rows repo] obtain c h cmd where
    e: "e = SystemExit c" and sub: "submits gh (st_calls st) cmds (Aborted (h @ [cmd]) c)"
    and calls: "st_calls st' = h @ [cmd]"
    and out: "st_stdout st' = st_stdout st @ failed_out (gh h cmd)"
    and err: "st_stderr st' = st_stderr st @ failed_err (gh h cmd)"
    unfolding cmds by auto
  from submits_Aborted [OF sub] obtain k where k: "k < length cmds" and c0: "c \<noteq> 0"
    and hk: "h @ [cmd] = st_calls st @ take (Suc k) cmds"
    and c: "c = returncode (gh (st_calls st @ take k cmds) (cmds ! k))"
    and before: "\<forall>j < k. returncode (gh (st_calls st @ take j cmds) (cmds ! j)) = 0"
    by blast
  from hk k have "h = st_calls st @ take k cmds" and "cmd = cmds ! k"
    by (simp_all add: take_Suc_conv_app_nth)
  with k c0 c e before calls hk out err show ?thesis by auto
qed

theorem main_live_aborts_witness:
  "\<not> arg_dry_run sample_args \<and> py_strip (arg_repo sample_args) \<noteq> [] \<and>
   sample_files (arg_seed sample_args) = Some sample_rows \<and>
   main sample_gh sample_files sample_args sample_state =
     (Inl (SystemExit 1), snd (main sample_gh sample_files sample_args sample_state)) \<and>
   sample_selected = limit_rows (arg_limit sample_args) (select_rows sample_rows) \<and>
   ''o/r'' = py_strip (arg_repo sample_args) \<and>
   (let st' = snd (main sample_gh sample_files sample_args sample_state);
        cmds = map (row_cmd ''o/r'' (arg_project sample_args)) sample_selected in
    \<exists>k < length cmds.
      returncode (sample_gh (st_calls sample_state @ take k cmds) (cmds ! k)) \<noteq> 0 \<and>
      SystemExit 1 = SystemExit (returncode (sample_gh (st_calls sample_state @ take k cmds) (cmds ! k))) \<and>
      st_calls st' = st_calls sample_state @ take (Suc k) cmds \<and>
      st_stdout st' = st_stdout sample_state @ failed_out (sample_gh (st_calls sample_state @ take k cmds) (cmds ! k)) \<and>
      st_stderr st' = st_stderr sample_state @ failed_err (sample_gh (st_calls sample_state @ take k cmds) (cmds ! k)))"
proof -
  have d: "\<not> arg_dry_run sample_args" by simp
  have p: "py_strip (arg_repo sample_args) \<noteq> []" by code_simp
  have f: "sample_files (arg_seed sample_args) = Some sample_rows" by simp
  have ex: "fst (main sample_gh sample_files sample_args sample_state) = Inl (SystemExit 1)" by code_simp
  then have m: "main sample_gh sample_files sample_args sample_state =
     (Inl (SystemExit 1), snd (main sample_gh sample_files sample_args sample_state))"
    by (metis prod.collapse)
  have r: "sample_selected = limit_rows (arg_limit sample_args) (select_rows sample_rows)" by code_simp
  have e: "''o/r'' = py_strip (arg_repo sample_args)" by code_simp
  note inst = main_live_aborts [where files = sample_files and rs = sample_rows, OF d p f m r e refl]
  show ?thesis unfolding Let_def using d p f m r e inst by blast
qed

text \<open>C3: a dry run with a given repository hands no command to \<^verbatim>\<open>gh\<close>: it
  prints one line \<^verbatim>\<open>DRY: \<close> followed by the space-joined command for each
  selected row, in order, then the summary line, and returns normally.\<close>

theorem main_dry_run:
  assumes "arg_dry_run a" "py_strip (arg_repo a) \<noteq> []" "files (arg_seed a) = Some rs"
    and rows: "rows = limit_rows (arg_limit a) (select_rows rs)"
    and repo: "repo = py_strip (arg_repo a)"
  shows "main gh files a st =
    (Inr (), st\<lparr>st_stdout := st_stdout st @ map (\<lambda>r. ''DRY: '' @ py_join '' '' (row_cmd repo (arg_project a) r)) rows
                 @ [ok_line (length rows) repo]\<rparr>)"
proof -
  have all: "list_all has_title rows" unfolding rows by (rule list_all_has_title_rows)
  show ?thesis
    using main_given_repo [where a = a and files = files and rs = rs and gh = gh, OF assms(2,3)] submit_rows_dry [OF assms(1) all, of gh repo st]
    by (simp add: rows repo io_bind_apply print_out_def)
qed
theorem main_dry_run_witness:
  "arg_dry_run (sample_args\<lparr>arg_dry_run := True\<rparr>) \<and> py_strip (arg_repo (sample_args\<lparr>arg_dry_run := True\<rparr>)) \<noteq> [] \<and>
   sample_files (arg_seed (sample_args\<lparr>arg_dry_run := True\<rparr>)) = Some sample_rows \<and>
   sample_selected = limit_rows (arg_limit (sample_args\<lparr>arg_dry_run := True\<rparr>)) (select_rows sample_rows) \<and>
   ''o/r'' = py_strip (arg_repo (sample_args\<lparr>arg_dry_run := True\<rparr>)) \<and>
   main sample_gh sample_files (sample_args\<lparr>arg_dry_run := True\<rparr>) sample_state =
    (Inr (), sample_state\<lparr>st_stdout := st_stdout sample_state @
       map (\<lambda>r. ''DRY: '' @ py_join '' '' (row_cmd ''o/r'' (arg_project (sample_args\<lparr>arg_dry_run := True\<rparr>)) r))
         sample_selected @ [ok_line (length sample_selected) ''o/r'']\<rparr>)"
proof -
  have d: "arg_dry_run (sample_args\<lparr>arg_dry_run := True\<rparr>)" by simp
  have p: "py_strip (arg_repo (sample_args\<lparr>arg_dry_run := True\<rparr>)) \<noteq> []" by code_simp
  have f: "sample_files (arg_seed (sample_args\<lparr>arg_dry_run := True\<rparr>)) = Some sample_rows" by simp
  have r: "sample_selected = limit_rows (arg_limit (sample_args\<lparr>arg_dry_run := True\<rparr>)) (select_rows sample_rows)"
    by code_simp
  have e: "''o/r'' = py_strip (arg_repo (sample_args\<lparr>arg_dry_run := True\<rparr>))" by code_simp
  from d p f r e main_dry_run [where files = sample_files and rs = sample_rows and gh = sample_gh
    and st = sample_state, OF d p f r e] show ?thesis by blast
qed

text \<open>C4: without \<^verbatim>\<open>--repo\<close>, even a dry run hands one command to
  \<^verbatim>\<open>gh\<close>, the repository lookup \<^verbatim>\<open>gh repo view\<close>, before it reads the seed;
  when the lookup succeeds the run returns normally and that lookup is the only
  command given to \<^verbatim>\<open>gh\<close>; when it fails the run ends with its
  \<^verbatim>\<open>SystemExit\<close> before any row is read.\<close>

theorem main_dry_run_repo_lookup:
  assumes "arg_dry_run a" "py_strip (arg_repo a) = []" "files (arg_seed a) = Some rs"
  shows "st_calls (snd (main gh files a st)) = st_calls st @ [repo_view_cmd] \<and>
         (fst (main gh files a st) = Inr () \<longleftrightarrow> returncode (gh (st_calls st) repo_view_cmd) = 0)"
proof (cases "returncode (gh (st_calls st) repo_view_cmd) = 0")
  case True
  let ?st1 = "st\<lparr>st_calls := st_calls st @ [repo_view_cmd]\<rparr>"
  let ?repo = "py_strip (proc_stdout (gh (st_calls st) repo_view_cmd))"
  let ?rows = "limit_rows (arg_limit a) (select_rows rs)"
  have "main gh files a st =
    io_bind (submit_rows gh a ?repo ?rows) (\<lambda>_. print_out (ok_line (length ?rows) ?repo)) ?st1"
    using assms(2,3) True
    by (simp add: main_def gh_repo_from_cwd_def read_seed_def io_bind_apply run_eq Let_def)
  with True show ?thesis
    by (simp add: io_bind_apply print_out_def submit_rows_dry [OF assms(1) list_all_has_title_rows])
next
  case False
  with assms(2) show ?thesis
    by (simp add: main_def gh_repo_from_cwd_def io_bind_apply run_eq Let_def)
qed

theorem main_dry_run_repo_lookup_witness:
  "arg_dry_run (sample_args\<lparr>arg_repo := [], arg_dry_run := True\<rparr>) \<and>
   py_strip (arg_repo (sample_args\<lparr>arg_repo := [], arg_dry_run := True\<rparr>)) = [] \<and>
   sample_files (arg_seed (sample_args\<lparr>arg_repo := [], arg_dry_run := True\<rparr>)) = Some sample_rows \<and>
   st_calls (snd (main sample_gh sample_files (sample_args\<lparr>arg_repo := [], arg_dry_run := True\<rparr>) sample_state))
     = [] @ [repo_view_cmd] \<and>
   fst (main sample_gh sample_files (sample_args\<lparr>arg_repo := [], arg_dry_run := True\<rparr>) sample_state) = Inr ()"
proof -
  have d: "arg_dry_run (sample_args\<lparr>arg_repo := [], arg_dry_run := True\<rparr>)" by simp
  have p: "py_strip (arg_repo (sample_args\<lparr>arg_repo := [], arg_dry_run := True\<rparr>)) = []"
    by (simp add: py_strip_def)
  have f: "sample_files (arg_seed (sample_args\<lparr>arg_repo := [], arg_dry_run := True\<rparr>)) = Some sample_rows" by simp
  have rc: "returncode (sample_gh [] repo_view_cmd) = 0" by simp
  from main_dry_run_repo_lookup [where files = sample_files and rs = sample_rows and gh = sample_gh
      and st = sample_state, OF d p f] d p f rc
  show ?thesis by simp
qed

text \<open>C18: the exit status of a live run (no \<^verbatim>\<open>--dry-run\<close>, repository
  given, seed file readable), as the operating system reports it, is 0 when every
  submitted command returned 0, and otherwise the return code of the first command
  that did not, modulo 256: a command killed by signal N (return code -N) makes the
  script exit with 256 - N, not with -N.\<close>

theorem main_exit_status:
  assumes "\<not> arg_dry_run a" "py_strip (arg_repo a) \<noteq> []" "files (arg_seed a) = Some rs"
    and cmds: "cmds = map (row_cmd (py_strip (arg_repo a)) (arg_project a)) (limit_rows (arg_limit a) (select_rows rs))"
  shows "unat (exit_status (fst (main gh files a st))) =
    (case find (\<lambda>j. returncode (gh (st_calls st @ take j cmds) (cmds ! j)) \<noteq> 0) [0..<length cmds] of
       None \<Rightarrow> 0
     | Some k \<Rightarrow> nat (returncode (gh (st_calls st @ take k cmds) (cmds ! k)) mod 256))"
proof -
  obtain res st' where m: "main gh files a st = (res, st')" by fastforce
  from main_live_submits [OF assms(1-3) m refl refl] obtain out where
    "submits gh (st_calls st) cmds out"
    "res = (case out of Completed _ \<Rightarrow> Inr () | Aborted _ c \<Rightarrow> Inl (SystemExit c))"
    unfolding cmds by auto
  from exit_status_first_fail [OF this] m show ?thesis by simp
qed

theorem main_exit_status_witness:
  "\<not> arg_dry_run sample_args \<and> py_strip (arg_repo sample_args) \<noteq> [] \<and>
   sample_files (arg_seed sample_args) = Some sample_rows \<and>
   unat (exit_status (fst (main sample_gh_killed sample_files sample_args sample_state))) = 247"
proof -
  have d: "\<not> arg_dry_run sample_args" by simp
  have p: "py_strip (arg_repo sample_args) \<noteq> []" by code_simp
  have f: "sample_files (arg_seed sample_args) = Some sample_rows" by simp
  let ?cmds = "map (row_cmd (py_strip (arg_repo sample_args)) (arg_project sample_args))
                 (limit_rows (arg_limit sample_args) (select_rows sample_rows))"
  have v: "(case find (\<lambda>j. returncode (sample_gh_killed (st_calls sample_state @ take j ?cmds) (?cmds ! j)) \<noteq> 0)
              [0..<length ?cmds] of
              None \<Rightarrow> 0
            | Some k \<Rightarrow> nat (returncode (sample_gh_killed (st_calls sample_state @ take k ?cmds) (?cmds ! k)) mod 256))
           = 247"
    by code_simp
  from d p f main_exit_status [where gh = sample_gh_killed and st = sample_state and a = sample_args
    and files = sample_files and rs = sample_rows, OF d p f refl] v
  show ?thesis by simp
qed

text \<open>C19: without \<^verbatim>\<open>--repo\<close>, a run whose repository lookup returns 0 with a
  non-blank output is the run given that output, stripped, as \<^verbatim>\<open>--repo\<close>,
  started after the lookup: so C1--C3 and C18 describe it too, with the lookup as the
  first command handed to \<^verbatim>\<open>gh\<close>.\<close>

theorem main_repo_from_lookup:
  assumes "py_strip (arg_repo a) = []" "returncode (gh (st_calls st) repo_view_cmd) = 0"
    and repo: "repo = py_strip (proc_stdout (gh (st_calls st) repo_view_cmd))" "repo \<noteq> []"
  shows "main gh files a st = main gh files (a\<lparr>arg_repo := repo\<rparr>) (st\<lparr>st_calls := st_calls st @ [repo_view_cmd]\<rparr>)"
  using assms by (simp add: main_def gh_repo_from_cwd_def io_bind_apply run_eq Let_def py_strip_idem
      read_seed_def submit_rows_arg_repo fun_eq_iff split: option.splits)

theorem main_repo_from_lookup_witness:
  "py_strip (arg_repo (sample_args\<lparr>arg_repo := ''  ''\<rparr>)) = [] \<and>
   returncode (sample_gh_lookup (st_calls sample_state) repo_view_cmd) = 0 \<and>
   ''o/r'' = py_strip (proc_stdout (sample_gh_lookup (st_calls sample_state) repo_view_cmd)) \<and>
   main sample_gh_lookup sample_files (sample_args\<lparr>arg_repo := ''  ''\<rparr>) sample_state =
   main sample_gh_lookup sample_files (sample_args\<lparr>arg_repo := ''  '', arg_repo := ''o/r''\<rparr>)
     (sample_state\<lparr>st_calls := st_calls sample_state @ [repo_view_cmd]\<rparr>)"
proof -
  have b: "py_strip (arg_repo (sample_args\<lparr>arg_repo := ''  ''\<rparr>)) = []" by code_simp
  have r: "returncode (sample_gh_lookup (st_calls sample_state) repo_view_cmd) = 0" by simp
  have o: "''o/r'' = py_strip (proc_stdout (sample_gh_lookup (st_calls sample_state) repo_view_cmd))"
    by code_simp
  have n: "''o/r'' \<noteq> []" by simp
  from b r o main_repo_from_lookup [where gh = sample_gh_lookup and files = sample_files
    and a = "sample_args\<lparr>arg_repo := ''  ''\<rparr>" and st = sample_state, OF b r o n] show ?thesis by blast
qed

text \<open>The hypothesis that the lookup's output is not blank is needed: a lookup that
  returns 0 with blank output leaves the repository empty, and every issue is created
  with \<^verbatim>\<open>--repo ""\<close>.\<close>

lemma main_blank_lookup:
  "take 5 (st_calls (snd (main (\<lambda>h c. \<lparr>returncode = 0, proc_stdout = '' '', proc_stderr = []\<rparr>)
      sample_files (sample_args\<lparr>arg_repo := []\<rparr>) sample_state)) ! 1) =
   [''gh'', ''issue'', ''create'', ''--repo'', []]"
  by code_simp

text \<open>C20: the summary line can be read back: \<open>read_ok_line\<close> recovers from
  \<^verbatim>\<open>OK: created N issues in REPO\<close> both the count N, rendered in decimal by
  \<^verbatim>\<open>str\<close>, and the repository, for every count and every repository.\<close>

theorem ok_line_roundtrip: "read_ok_line (ok_line n repo) = Some (n, repo)"
proof -
  have "\<not> is_digit CHR '' ''" by (simp add: is_digit_def)
  then show ?thesis
    by (simp add: read_ok_line_def ok_line_def starts_with_prefix Let_def py_str_nat_digits
        py_str_nat_ne digits_val_py_str_nat)
qed

end
