(* ===== verification/Spec2Isabelle.thy ===== *)
theory Spec2Isabelle
  imports Driver
begin

text \<open>
  \<^bold>\<open>A verification library for \<^verbatim>\<open>src/kanban/create_issues.py\<close> of BaleSupply.\<close>

  The program is one script. It reads a CSV seed file of issues (title, body, labels,
  milestone), turns each row into a GitHub issue with a templated Markdown body and
  hands each issue to the external \<^verbatim>\<open>gh\<close> command-line tool, one at a time,
  stopping at the first failure; \<^verbatim>\<open>--dry-run\<close> prints the commands instead.

  \<^bold>\<open>Parts of the program and where they are modelled.\<close>
  \<^item> \<^verbatim>\<open>Prelude\<close>: the Python built-ins the script calls on strings
    (\<^verbatim>\<open>strip\<close>, \<^verbatim>\<open>lower\<close>, \<^verbatim>\<open>split\<close>, \<^verbatim>\<open>join\<close>, the substring test,
    \<^verbatim>\<open>x or ""\<close>, \<^verbatim>\<open>str(n)\<close>) as \<open>py_strip\<close>, \<open>py_lower\<close>, \<open>py_split\<close>,
    \<open>py_join\<close>, \<open>py_contains\<close>, \<open>py_or_empty\<close>, \<open>py_str_nat\<close>, with their
    round trips (\<open>py_split_py_join\<close>, \<open>py_join_py_split\<close>) and idempotence lemmas.
    A Python string is a list of code points, modelled as a HOL \<open>string\<close> whose
    characters are read as U+0000..U+00FF (every literal of the script is in that
    range); whitespace and lower-casing are CPython's on that range.
  \<^item> \<^verbatim>\<open>Labels\<close>: \<^verbatim>\<open>normalize_labels\<close> (its loop is \<open>norm_loop\<close>),
    \<^verbatim>\<open>kind_from_labels\<close> and \<^verbatim>\<open>ensure_primary_label\<close>; the abstract
    specification \<open>normalize_spec\<close> (first occurrences of the stripped non-empty
    pieces), the closed kind enumeration \<open>issue_kind\<close> with the precedence
    classifier \<open>classify\<close>, and the well-formedness predicate \<open>labels_wf\<close>.
  \<^item> \<^verbatim>\<open>Inference\<close>: \<^verbatim>\<open>infer_dfd\<close> and \<^verbatim>\<open>infer_role\<close>, and the ordered
    rule tables \<open>dfd_rules\<close>, \<open>role_rules\<close> evaluated by \<open>first_match\<close>, which
    is how the spec's design note asks the heuristics to be read.
  \<^item> \<^verbatim>\<open>Templates\<close>: the four f-string templates \<^verbatim>\<open>body_feature\<close>,
    \<^verbatim>\<open>body_docs\<close>, \<^verbatim>\<open>body_db\<close>, \<^verbatim>\<open>body_bug\<close> and the dispatch
    \<^verbatim>\<open>build_body\<close>, character for character; \<open>body_desc\<close> reads the
    description back from a body.
  \<^item> \<^verbatim>\<open>Issue\<close>: a CSV row as the record \<open>seed_row\<close> of optional fields (what
    \<^verbatim>\<open>r.get\<close> returns), the title filter \<open>select_rows\<close>, the
    \<^verbatim>\<open>--limit\<close> truncation \<open>limit_rows\<close>, one iteration of the main loop up to
    the command, \<open>process_row\<close> (with the \<^verbatim>\<open>KeyError\<close> of \<^verbatim>\<open>r["title"]\<close>
    as an error value), and the \<^verbatim>\<open>gh issue create\<close> argument vector \<open>issue_cmd\<close>.
  \<^item> \<^verbatim>\<open>Driver\<close>: the effects. \<open>io_state\<close> holds the lines printed to standard
    output and standard error and the commands handed to \<^verbatim>\<open>gh\<close>; an action
    returns \<open>py_error + 'a\<close> and the next state, and \<open>io_bind\<close> propagates an
    exception as Python does. \<^verbatim>\<open>run\<close>, \<^verbatim>\<open>gh_repo_from_cwd\<close>, the loop
    \<open>submit_rows\<close> over \<open>submit_row\<close>, \<^verbatim>\<open>main\<close> after argument parsing, and
    the process exit status \<open>exit_status\<close> as an 8-bit word. The loop's contract
    from the spec (sequential submission, abort at the first failure) is the inductive
    relation \<open>submits\<close>.

  The components call each other as the script does: \<open>process_row\<close> composes the
  label, inference and template functions in the order of lines 189--199, and
  \<open>main\<close> composes the row functions with \<open>run\<close>.

  \<^bold>\<open>What the lemmas show\<close> (the claims C1..C20 are stated next to their proofs).
  \<^item> Driver (C1--C4, C18--C20): a live run refines the contract \<open>submits\<close>
    (\<open>main_live_submits\<close>, with \<open>submits_Completed\<close> and \<open>submits_Aborted\<close>
    proved by rule induction): a run that returns normally submitted every command
    once, in order, each returning 0, and printed only the summary line
    (\<open>main_live_completes\<close>); a run that raises stops with \<^verbatim>\<open>SystemExit\<close> of the
    first failing command, having submitted nothing after it and without the summary
    line (\<open>main_live_aborts\<close>); a dry run hands nothing to \<^verbatim>\<open>gh\<close> when the
    repository is given, and exactly the repository lookup when it is not. The exit
    status the operating system reports is 0 or the first failing return code modulo
    256 (\<open>main_exit_status\<close>, so a command killed by a signal gives 256 - N); a run
    without \<^verbatim>\<open>--repo\<close> whose lookup succeeds is the run given the looked-up
    repository (\<open>main_repo_from_lookup\<close>, which carries C1--C3 and C18 over to such
    runs; \<open>main_blank_lookup\<close> shows that a blank lookup output becomes an empty
    \<^verbatim>\<open>--repo\<close>); the summary line reads back to its count and repository
    (\<open>ok_line_roundtrip\<close>, through \<open>digits_val\<close>, the inverse of \<^verbatim>\<open>str\<close> on
    naturals proved in Prelude).
  \<^item> Labels (C5--C9): the loop refines \<open>normalize_spec\<close>; its output is
    duplicate-free, stripped, comma-free; normalization is idempotent; the kind follows
    the bug > db > docs > feature precedence; inserting the kind label never
    duplicates.
  \<^item> Inference (C10, C11, C16): the \<^verbatim>\<open>if\<close> chains equal the rule tables;
    title tests are case-insensitive. Two evaluated lemmas show that label tests are
    case-sensitive and that keywords match inside words.
  \<^item> Templates (C12, C13): the description round-trips through every body; bodies of
    different kinds differ.
  \<^item> Issue (C14, C15): a selected row never raises \<^verbatim>\<open>KeyError\<close>; issue labels
    are well formed and always produce \<^verbatim>\<open>--label\<close>. The spec's scenarios are
    evaluated lemmas.
  \<^item> Across components (C17, in this theory): an issue built by
    \<open>process_row\<close> carries its row: the stripped title and milestone, the
    stripped description (read back from the rendered body with \<open>body_desc\<close>),
    and the row's label pieces plus the kind label.

  \<^bold>\<open>Bounds, fuel, termination.\<close> Every loop of the script is a \<^verbatim>\<open>for\<close> over a
  finite list and is modelled by structural recursion (\<open>norm_loop\<close>,
  \<open>submit_rows\<close>, \<open>split_acc\<close>); \<open>py_str_nat\<close> recurses on \<open>n div 10\<close>.
  No fuel is needed. The only machine-width value is the process exit status, which
  the operating system truncates to 8 bits: \<open>exit_status\<close> is an \<open>8 word\<close>.

  \<^bold>\<open>Not modelled.\<close> The \<^verbatim>\<open>gh\<close> tool (a parameter \<open>gh_tool\<close> that may answer
  each command depending on all earlier ones), \<^verbatim>\<open>argparse\<close> (the parsed
  \<open>args\<close> record is the input), the CSV parser and \<^verbatim>\<open>open\<close> (a parameter
  \<open>seed_files\<close> from a path to the rows or to a failure; a decoding or CSV error
  in the middle of the file is not represented), code points above U+00FF. The tool
  always answers, so the \<^verbatim>\<open>FileNotFoundError\<close> of a missing \<^verbatim>\<open>gh\<close> is not
  represented. A row whose title value is \<^verbatim>\<open>None\<close> (a short CSV line) would raise
  \<^verbatim>\<open>AttributeError\<close> at \<^verbatim>\<open>.strip()\<close>; it is folded into \<^verbatim>\<open>KeyError\<close>,
  and the title filter makes the path unreachable. The truncation of the exit code to
  8 bits is the interpreter's and the operating system's (lines 216--217 only call
  \<^verbatim>\<open>main\<close>); \<open>exit_status\<close> models it so that C18 can speak of the status a
  caller sees.

  \<^bold>\<open>Further work.\<close> Cross-component theorems on whole runs (every submitted
  command carries the issue of its row, in the argument order of \<open>issue_cmd\<close>).
\<close>

section \<open>Properties across components\<close>

text \<open>C17: every issue built from a row carries that row: its title and milestone are
  the row's, stripped; the row's stripped description can be read back from the body
  rendered for the issue's kind, process and role; and its labels are the row's
  normalized labels plus the kind label.\<close>

theorem issue_carries_row:
  assumes "process_row r = Inr iss"
  shows "Some (iss_title iss) = map_option py_strip (row_title r) \<and>
         iss_milestone iss = py_strip (py_or_empty (row_milestone r)) \<and>
         body_desc (kind_from_labels (iss_labels iss)) (infer_dfd (iss_title iss) (iss_labels iss))
           (infer_role (iss_title iss) (iss_labels iss)) (iss_body iss) = Some (py_strip (py_or_empty (row_body r))) \<and>
         set (iss_labels iss) = insert (kind_from_labels (iss_labels iss)) (set (label_pieces (py_or_empty (row_labels r))))"
proof -
  from assms obtain t where t: "row_title r = Some t" "iss_title iss = py_strip t"
    and m: "iss_milestone iss = py_strip (py_or_empty (row_milestone r))"
    and b: "iss_body iss = build_body (kind_from_labels (iss_labels iss)) (py_strip (py_or_empty (row_body r)))
        (infer_dfd (iss_title iss) (iss_labels iss)) (infer_role (iss_title iss) (iss_labels iss))"
    and l: "iss_labels iss = ensure_primary_label (normalize_labels (Some (py_or_empty (row_labels r))))
        (kind_from_labels (normalize_labels (Some (py_or_empty (row_labels r)))))"
    by (rule process_row_fields)
  obtain pre post where parts: "template_parts (kind_from_labels (iss_labels iss))
      (infer_dfd (iss_title iss) (iss_labels iss)) (infer_role (iss_title iss) (iss_labels iss)) = (pre, post)"
    by fastforce
  have "body_desc (kind_from_labels (iss_labels iss)) (infer_dfd (iss_title iss) (iss_labels iss))
           (infer_role (iss_title iss) (iss_labels iss)) (iss_body iss) = Some (py_strip (py_or_empty (row_body r)))"
    unfolding b body_desc_def parts prod.case build_body_parts [OF parts] by (rule unfill_fill)
  moreover have "set (iss_labels iss) = insert (kind_from_labels (iss_labels iss)) (set (label_pieces (py_or_empty (row_labels r))))"
  proof -
    let ?L = "normalize_labels (Some (py_or_empty (row_labels r)))"
    have k: "kind_from_labels (iss_labels iss) = kind_from_labels ?L"
      unfolding l by (rule kind_from_labels_ensure)
    have "set ?L = set (label_pieces (py_or_empty (row_labels r)))"
      by (simp add: normalize_labels_eq_spec normalize_spec_def set_dedup_first py_or_empty_def)
    moreover have "set (iss_labels iss) = insert (kind_from_labels ?L) (set ?L)"
      unfolding l by (auto simp: ensure_primary_label_def Let_def)
    ultimately show ?thesis using k by simp
  qed
  ultimately show ?thesis using t m by simp
qed
theorem issue_carries_row_witness:
  "process_row \<lparr>row_title = Some ''Fix login bug'', row_body = Some '' Login fails '',
     row_labels = Some ''bug,vendor'', row_milestone = Some ''M1''\<rparr> = Inr \<lparr>iss_title = ''Fix login bug'', iss_body = body_bug ''Login fails'',
        iss_labels = [''bug'', ''vendor''], iss_milestone = ''M1''\<rparr> \<and>
   body_desc (kind_from_labels (iss_labels \<lparr>iss_title = ''Fix login bug'', iss_body = body_bug ''Login fails'',
        iss_labels = [''bug'', ''vendor''], iss_milestone = ''M1''\<rparr>))
     (infer_dfd (iss_title \<lparr>iss_title = ''Fix login bug'', iss_body = body_bug ''Login fails'',
        iss_labels = [''bug'', ''vendor''], iss_milestone = ''M1''\<rparr>) (iss_labels \<lparr>iss_title = ''Fix login bug'', iss_body = body_bug ''Login fails'',
        iss_labels = [''bug'', ''vendor''], iss_milestone = ''M1''\<rparr>))
     (infer_role (iss_title \<lparr>iss_title = ''Fix login bug'', iss_body = body_bug ''Login fails'',
        iss_labels = [''bug'', ''vendor''], iss_milestone = ''M1''\<rparr>) (iss_labels \<lparr>iss_title = ''Fix login bug'', iss_body = body_bug ''Login fails'',
        iss_labels = [''bug'', ''vendor''], iss_milestone = ''M1''\<rparr>))
     (iss_body \<lparr>iss_title = ''Fix login bug'', iss_body = body_bug ''Login fails'',
        iss_labels = [''bug'', ''vendor''], iss_milestone = ''M1''\<rparr>) = Some ''Login fails''"
proof -
  have h: "process_row \<lparr>row_title = Some ''Fix login bug'', row_body = Some '' Login fails '',
     row_labels = Some ''bug,vendor'', row_milestone = Some ''M1''\<rparr> = Inr \<lparr>iss_title = ''Fix login bug'', iss_body = body_bug ''Login fails'',
        iss_labels = [''bug'', ''vendor''], iss_milestone = ''M1''\<rparr>"
    by code_simp
  have "py_strip (py_or_empty (row_body \<lparr>row_title = Some ''Fix login bug'', row_body = Some '' Login fails '',
     row_labels = Some ''bug,vendor'', row_milestone = Some ''M1''\<rparr>)) = ''Login fails''" by code_simp
  with issue_carries_row [OF h] h show ?thesis by simp
qed

end
